theory Spec2Isabelle
  imports Main
begin

section \<open>JavaScript values used by the dashboard\<close>

text \<open>
  The components hold the year as a JavaScript number and everything else as strings.
  Numbers are modelled as mathematical integers plus \<open>NaN\<close>: the year comes from
  \<open>new Date().getFullYear()\<close> or from \<open>Number(e.target.value)\<close> of a menu of years.
  Fractions, infinities and the loss of precision above \<open>2^53\<close> are outside the model.
  File names and messages are Isabelle strings; the French messages of the source are
  written without their accents and emoji.
\<close>

datatype jsnum = Num int | NaN

text \<open>Truthiness, as \<open>!x\<close>, \<open>x || y\<close> and \<open>x && y\<close> test it.\<close>

definition truthy_str :: "string \<Rightarrow> bool" where
  "truthy_str s = (s \<noteq> [])"

fun truthy_num :: "jsnum \<Rightarrow> bool" where
  "truthy_num (Num n) = (n \<noteq> 0)"
| "truthy_num NaN = False"

text \<open>\<open>null\<close> and \<open>undefined\<close> are \<open>None\<close>.\<close>

fun truthy_opt_str :: "string option \<Rightarrow> bool" where
  "truthy_opt_str None = False"
| "truthy_opt_str (Some s) = truthy_str s"

fun truthy_opt_num :: "jsnum option \<Rightarrow> bool" where
  "truthy_opt_num None = False"
| "truthy_opt_num (Some n) = truthy_num n"

subsection \<open>\<open>String(n)\<close> and \<open>Number(s)\<close>\<close>

text \<open>The ten digits; a digit's value is its position among them.\<close>

definition decimal_digits :: string where
  "decimal_digits = ''0123456789''"

fun position :: "'a \<Rightarrow> 'a list \<Rightarrow> nat option" where
  "position x [] = None"
| "position x (y # ys) = (if x = y then Some 0 else map_option Suc (position x ys))"

definition digit_char :: "nat \<Rightarrow> char" where
  "digit_char d = decimal_digits ! (d mod 10)"

definition digit_val :: "char \<Rightarrow> nat option" where
  "digit_val c = position c decimal_digits"

text \<open>The decimal digits of a natural number, most significant first.\<close>

function digits_of :: "nat \<Rightarrow> string" where
  "digits_of n =
     (if n < 10 then [digit_char n] else digits_of (n div 10) @ [digit_char (n mod 10)])"
  by pat_completeness auto
termination
  by (relation "measure (\<lambda>n. n)") auto

declare digits_of.simps [simp del]

text \<open>Reading decimal digits left to right; \<open>None\<close> as soon as a character is no digit.\<close>

fun parse_digits :: "nat \<Rightarrow> string \<Rightarrow> nat option" where
  "parse_digits acc [] = Some acc"
| "parse_digits acc (c # cs) =
     (case digit_val c of None \<Rightarrow> None | Some d \<Rightarrow> parse_digits (10 * acc + d) cs)"

text \<open>\<open>String(n)\<close> for a number.\<close>

fun String_num :: "jsnum \<Rightarrow> string" where
  "String_num NaN = ''NaN''"
| "String_num (Num n) = (if n < 0 then CHR ''-'' # digits_of (nat (- n)) else digits_of (nat n))"

text \<open>
  \<open>Number(s)\<close> for a string: the empty string is \<open>0\<close>, an optionally signed run of decimal
  digits is its value, and every other string of the modelled fragment is \<open>NaN\<close>. The
  literals with white space, a fraction, an exponent, a radix prefix or \<open>Infinity\<close> are
  not interpreted: the only writer of the stored year writes \<open>String(annee)\<close>.
\<close>

definition unsigned_num :: "string \<Rightarrow> jsnum" where
  "unsigned_num s =
     (if s = [] then NaN
      else case parse_digits 0 s of None \<Rightarrow> NaN | Some n \<Rightarrow> Num (int n))"

fun neg_num :: "jsnum \<Rightarrow> jsnum" where
  "neg_num (Num n) = Num (- n)"
| "neg_num NaN = NaN"

fun Number_str :: "string \<Rightarrow> jsnum" where
  "Number_str [] = Num 0"
| "Number_str (c # cs) =
     (if c = CHR ''-'' then neg_num (unsigned_num cs)
      else if c = CHR ''+'' then unsigned_num cs
      else unsigned_num (c # cs))"

text \<open>\<open>Number(x)\<close> where \<open>x\<close> may be \<open>null\<close>: \<open>Number(null)\<close> is \<open>0\<close>.\<close>

fun Number_opt_str :: "string option \<Rightarrow> jsnum" where
  "Number_opt_str None = Num 0"
| "Number_opt_str (Some s) = Number_str s"

subsection \<open>Strings\<close>

text \<open>\<open>s.toLowerCase()\<close> on the letters \<open>A\<close> to \<open>Z\<close>; every other character is kept.\<close>

definition lower_char :: "char \<Rightarrow> char" where
  "lower_char c =
     (if c = CHR ''A'' then CHR ''a'' else if c = CHR ''B'' then CHR ''b''
      else if c = CHR ''C'' then CHR ''c'' else if c = CHR ''D'' then CHR ''d''
      else if c = CHR ''E'' then CHR ''e'' else if c = CHR ''F'' then CHR ''f''
      else if c = CHR ''G'' then CHR ''g'' else if c = CHR ''H'' then CHR ''h''
      else if c = CHR ''I'' then CHR ''i'' else if c = CHR ''J'' then CHR ''j''
      else if c = CHR ''K'' then CHR ''k'' else if c = CHR ''L'' then CHR ''l''
      else if c = CHR ''M'' then CHR ''m'' else if c = CHR ''N'' then CHR ''n''
      else if c = CHR ''O'' then CHR ''o'' else if c = CHR ''P'' then CHR ''p''
      else if c = CHR ''Q'' then CHR ''q'' else if c = CHR ''R'' then CHR ''r''
      else if c = CHR ''S'' then CHR ''s'' else if c = CHR ''T'' then CHR ''t''
      else if c = CHR ''U'' then CHR ''u'' else if c = CHR ''V'' then CHR ''v''
      else if c = CHR ''W'' then CHR ''w'' else if c = CHR ''X'' then CHR ''x''
      else if c = CHR ''Y'' then CHR ''y'' else if c = CHR ''Z'' then CHR ''z''
      else c)"

definition toLowerCase :: "string \<Rightarrow> string" where
  "toLowerCase s = map lower_char s"

text \<open>\<open>s.endsWith(t)\<close>.\<close>

definition endsWith :: "string \<Rightarrow> string \<Rightarrow> bool" where
  "endsWith s t = (length t \<le> length s \<and> drop (length s - length t) s = t)"

text \<open>\<open>x || y\<close> where \<open>x\<close> is a string or \<open>null\<close> and \<open>y\<close> a string.\<close>

fun or_str :: "string option \<Rightarrow> string \<Rightarrow> string" where
  "or_str None d = d"
| "or_str (Some s) d = (if truthy_str s then s else d)"

subsection \<open>JSON bodies of the backend's replies\<close>

text \<open>
  The backend's replies are opaque JSON. An object is an association list (the first
  binding of a key is the one read); \<open>undefined\<close> is \<open>None\<close> of \<open>json option\<close>.
\<close>

datatype json =
  JNull | JBool bool | JNum jsnum | JStr string | JArr "json list" | JObj "(string \<times> json) list"

text \<open>Optional chaining \<open>x?.k\<close>: only an object has the keys read here.\<close>

fun field :: "string \<Rightarrow> json option \<Rightarrow> json option" where
  "field k (Some (JObj kvs)) = map_of kvs k"
| "field k _ = None"

fun truthy_json :: "json option \<Rightarrow> bool" where
  "truthy_json None = False"
| "truthy_json (Some JNull) = False"
| "truthy_json (Some (JBool b)) = b"
| "truthy_json (Some (JNum n)) = truthy_num n"
| "truthy_json (Some (JStr s)) = truthy_str s"
| "truthy_json (Some (JArr xs)) = True"
| "truthy_json (Some (JObj kvs)) = True"

text \<open>\<open>x || d\<close> and \<open>x ?? d\<close> on JSON values.\<close>

definition or_json :: "json option \<Rightarrow> json \<Rightarrow> json" where
  "or_json x d = (case x of None \<Rightarrow> d | Some v \<Rightarrow> if truthy_json x then v else d)"

fun nullish :: "json option \<Rightarrow> json option \<Rightarrow> json option" where
  "nullish None d = d"
| "nullish (Some JNull) d = d"
| "nullish (Some v) d = Some v"

text \<open>\<open>String(v)\<close>, which a template literal applies: an array joins its elements with commas.\<close>

fun String_json :: "json \<Rightarrow> string" and String_elems :: "json list \<Rightarrow> string" where
  "String_json JNull = ''null''"
| "String_json (JBool b) = (if b then ''true'' else ''false'')"
| "String_json (JNum n) = String_num n"
| "String_json (JStr s) = s"
| "String_json (JArr xs) = String_elems xs"
| "String_json (JObj kvs) = ''[object Object]''"
| "String_elems [] = []"
| "String_elems [x] = (case x of JNull \<Rightarrow> [] | _ \<Rightarrow> String_json x)"
| "String_elems (x # y # ys) =
     (case x of JNull \<Rightarrow> [] | _ \<Rightarrow> String_json x) @ '','' @ String_elems (y # ys)"

section \<open>The browser and the backend\<close>

text \<open>A \<open>File\<close> of the file input; the components read its name only.\<close>

record file_handle =
  file_name :: string

datatype jsval = VStr string | VNum jsnum | VFile file_handle

datatype http_method = GET | POST

datatype body = NoBody | FormData "(string \<times> jsval) list" | JsonBody "(string \<times> jsval) list"

record request =
  req_method :: http_method
  req_url :: string
  req_params :: "(string \<times> jsval) list"
  req_headers :: "(string \<times> string) list"
  req_body :: body

text \<open>
  What an axios call rejects with: \<open>err.response.data.detail\<close> (absent on a transport
  failure) and \<open>err.message\<close>.
\<close>

record http_error =
  response_detail :: "json option"
  err_message :: "string option"

datatype reply = Resolved json | Rejected http_error

text \<open>The backend is a parameter: it answers each request with its reply.\<close>

type_synonym backend = "request \<Rightarrow> reply"

text \<open>The payload of the \<open>analysis-period-changed\<close> event: \<open>e.detail\<close>, which may be absent.\<close>

record detail =
  d_mois :: "string option"
  d_annee :: "jsnum option"

type_synonym event = "detail option"

text \<open>
  Everything a handler does to the outside is appended to the trace, in the order in which it
  is done: requests sent, entries stored, events dispatched.
\<close>

datatype effect = Request request | SetItem string string | Dispatch string event

text \<open>
  The browser: \<open>localStorage\<close>, the environment's \<open>REACT_APP_API_BASE\<close>, the clock of
  \<open>new Date()\<close>, the listeners registered on \<open>window\<close> (event type and handler, in the
  order of registration), and the log of handler invocations.
\<close>

record world =
  localStorage :: "string \<rightharpoonup> string"
  REACT_APP_API_BASE :: "string option"
  now_month :: nat
  now_year :: int
  trace :: "effect list"
  listeners :: "(string \<times> nat) list"
  delivered :: "(nat \<times> event) list"

definition API_BASE :: "world \<Rightarrow> string" where
  "API_BASE w = or_str (REACT_APP_API_BASE w) ''http://127.0.0.1:8000''"

text \<open>\<open>Date.getMonth()\<close> is always one of 0 to 11.\<close>

definition getMonth :: "world \<Rightarrow> nat" where
  "getMonth w = now_month w mod 12"

definition getFullYear :: "world \<Rightarrow> jsnum" where
  "getFullYear w = Num (now_year w)"

definition MOIS :: "string list" where
  "MOIS = [''janvier'', ''fevrier'', ''mars'', ''avril'', ''mai'', ''juin'',
           ''juillet'', ''aout'', ''septembre'', ''octobre'', ''novembre'', ''decembre'']"

definition monthNameFR :: "world \<Rightarrow> string" where
  "monthNameFR w = MOIS ! getMonth w"

definition getItem :: "string \<Rightarrow> world \<Rightarrow> string option" where
  "getItem k w = localStorage w k"

definition setItem :: "string \<Rightarrow> string \<Rightarrow> world \<Rightarrow> world" where
  "setItem k v w = w\<lparr>localStorage := (localStorage w)(k \<mapsto> v), trace := trace w @ [SetItem k v]\<rparr>"

text \<open>Sending a request: it is recorded, and the backend's reply comes back.\<close>

definition send :: "backend \<Rightarrow> request \<Rightarrow> world \<Rightarrow> reply \<times> world" where
  "send bk r w = (bk r, w\<lparr>trace := trace w @ [Request r]\<rparr>)"

subsection \<open>The event target \<open>window\<close>\<close>

text \<open>
  \<open>addEventListener\<close> registers a handler unless it is registered already for the type,
  \<open>removeEventListener\<close> removes it, and \<open>dispatchEvent\<close> invokes every handler registered
  for the event's type, in the order of registration.
\<close>

definition addEventListener :: "string \<Rightarrow> nat \<Rightarrow> world \<Rightarrow> world" where
  "addEventListener kind h w =
     (if (kind, h) \<in> set (listeners w) then w else w\<lparr>listeners := listeners w @ [(kind, h)]\<rparr>)"

definition removeEventListener :: "string \<Rightarrow> nat \<Rightarrow> world \<Rightarrow> world" where
  "removeEventListener kind h w = w\<lparr>listeners := removeAll (kind, h) (listeners w)\<rparr>"

definition dispatchEvent :: "string \<Rightarrow> event \<Rightarrow> world \<Rightarrow> world" where
  "dispatchEvent kind e w =
     w\<lparr>trace := trace w @ [Dispatch kind e],
       delivered := delivered w @ map (\<lambda>l. (snd l, e)) (filter (\<lambda>l. fst l = kind) (listeners w))\<rparr>"

text \<open>The effects between an earlier world and a later one.\<close>

definition since :: "world \<Rightarrow> world \<Rightarrow> effect list" where
  "since w w' = drop (length (trace w)) (trace w')"

section \<open>UploadSection: the upload and analysis orchestrator\<close>

text \<open>
  The state of the component (\<open>useState\<close>), without the menu of files to delete. A handler
  maps the state and the browser to the state and the browser after it has run; an \<open>async\<close>
  handler is run to its end, each \<open>await\<close> taking the backend's reply.
\<close>

record upload_section =
  files :: "file_handle list"
  typeFichier :: string
  mois :: string
  annee :: jsnum
  successMessage :: string
  error :: string
  confirmOpen :: bool
  loading :: bool

text \<open>The test of \<open>files.find\<close>: the file's name, in lower case, does not end in \<open>.xlsx\<close>.\<close>

definition not_xlsx :: "file_handle \<Rightarrow> bool" where
  "not_xlsx f = (\<not> endsWith (toLowerCase (file_name f)) ''.xlsx'')"

definition handleUploadClick :: "upload_section \<times> world \<Rightarrow> upload_section \<times> world" where
  "handleUploadClick sw =
     (let s = (fst sw)\<lparr>successMessage := [], error := []\<rparr>; w = snd sw in
      if \<not> truthy_str (typeFichier s) \<or> \<not> truthy_str (mois s) \<or> \<not> truthy_num (annee s)
      then (s\<lparr>error := ''Veuillez selectionner le type de fichier, le mois et l'annee.''\<rparr>, w)
      else if files s = []
      then (s\<lparr>error := ''Veuillez selectionner au moins un fichier .xlsx.''\<rparr>, w)
      else case find not_xlsx (files s) of
        Some invalid \<Rightarrow>
          (s\<lparr>error := ''Seuls les fichiers .xlsx sont autorises (fichier invalide : ''
                       @ file_name invalid @ '')''\<rparr>, w)
      | None \<Rightarrow> (s\<lparr>confirmOpen := True\<rparr>, w))"

text \<open>The value of the \<open>Authorization\<close> header: \<open>token ? `Bearer ${token}` : ""\<close>.\<close>

definition authorization :: "string option \<Rightarrow> string" where
  "authorization token =
     (case token of None \<Rightarrow> [] | Some t \<Rightarrow> if truthy_str t then ''Bearer '' @ t else [])"

definition upload_request :: "upload_section \<Rightarrow> world \<Rightarrow> request" where
  "upload_request s w =
     \<lparr>req_method = POST,
      req_url = API_BASE w @ ''/upload-excel'',
      req_params = [],
      req_headers = [(''Authorization'', authorization (getItem ''token'' w)),
                     (''Content-Type'', ''multipart/form-data'')],
      req_body = FormData ([(''type_fichier'', VStr (typeFichier s)),
                            (''mois'', VStr (mois s)),
                            (''annee'', VStr (String_num (annee s)))]
                           @ map (\<lambda>f. (''files'', VFile f)) (files s))\<rparr>"

definition etl_request :: "upload_section \<Rightarrow> world \<Rightarrow> request" where
  "etl_request s w =
     \<lparr>req_method = POST,
      req_url = API_BASE w @ ''/etl/load-month'',
      req_params = [],
      req_headers = [(''Authorization'', authorization (getItem ''token'' w))],
      req_body = JsonBody [(''mois'', VStr (mois s)), (''annee'', VNum (annee s)),
                           (''type_fichier'', VStr (typeFichier s))]\<rparr>"

text \<open>\<open>rows.k || 0\<close> inside the template literal.\<close>

definition row_count :: "json \<Rightarrow> string \<Rightarrow> string" where
  "row_count rows k = String_json (or_json (field k (Some rows)) (JNum (Num 0)))"

definition success_text :: "json \<Rightarrow> string" where
  "success_text data =
     (let rows = or_json (field ''rows_loaded'' (field ''etl_summary'' (Some data))) (JObj []);
          ana = or_json (field ''analysis'' (Some data)) (JObj []);
          anomalies = nullish (field ''inserted_anomalies'' (Some ana))
                        (nullish (field ''count'' (Some ana)) (Some (JNum (Num 0))));
          crit = nullish (field ''critical'' (Some ana)) (Some (JNum (Num 0)))
      in ''Chargement termine. ''
         @ ''Ventes:'' @ row_count rows ''ventes'' @ '' Achats:'' @ row_count rows ''achats''
         @ '' Stock:'' @ row_count rows ''stock'' @ '' ''
         @ ''Depenses:'' @ row_count rows ''depenses'' @ '' Marge:'' @ row_count rows ''marge''
         @ '' Banque:'' @ row_count rows ''banque'' @ '' ''
         @ ''Caisse:'' @ row_count rows ''caisse'' @ '' Clients:'' @ row_count rows ''clients''
         @ ''. '' @ ''Analyse IA: ''
         @ (case anomalies of None \<Rightarrow> ''undefined'' | Some v \<Rightarrow> String_json v)
         @ '' anomalie(s), dont ''
         @ (case crit of None \<Rightarrow> ''undefined'' | Some v \<Rightarrow> String_json v)
         @ '' critique(s).'')"

text \<open>
  The message of a \<open>catch\<close>: \<open>String(err?.response?.data?.detail || err?.message || d)\<close>.
\<close>

definition error_value :: "http_error \<Rightarrow> string \<Rightarrow> json" where
  "error_value e d =
     (case response_detail e of
        Some v \<Rightarrow> if truthy_json (Some v) then v else JStr (or_str (err_message e) d)
      | None \<Rightarrow> JStr (or_str (err_message e) d))"

definition error_text :: "http_error \<Rightarrow> string \<Rightarrow> string" where
  "error_text e d = String_json (error_value e d)"

text \<open>The \<open>catch\<close> and \<open>finally\<close> blocks of \<open>performUploadAndAnalyze\<close>.\<close>

definition upload_failed :: "http_error \<Rightarrow> upload_section \<Rightarrow> upload_section" where
  "upload_failed e s =
     s\<lparr>error := error_text e ''Erreur durant l'operation (upload/ETL/IA).'',
       loading := False, confirmOpen := False\<rparr>"

definition period_detail :: "upload_section \<Rightarrow> event" where
  "period_detail s = Some \<lparr>d_mois = Some (mois s), d_annee = Some (annee s)\<rparr>"

definition performUploadAndAnalyze ::
  "backend \<Rightarrow> upload_section \<times> world \<Rightarrow> upload_section \<times> world" where
  "performUploadAndAnalyze bk sw =
     (let s = (fst sw)\<lparr>loading := True\<rparr>; w = snd sw in
      case send bk (upload_request s w) w of
        (Rejected e, w1) \<Rightarrow> (upload_failed e s, w1)
      | (Resolved uploaded, w1) \<Rightarrow>
          (case send bk (etl_request s w) w1 of
             (Rejected e, w2) \<Rightarrow> (upload_failed e s, w2)
           | (Resolved data, w2) \<Rightarrow>
               (let w3 = setItem ''analysisMonth'' (mois s) w2;
                    w4 = setItem ''analysisYear'' (String_num (annee s)) w3;
                    w5 = dispatchEvent ''analysis-period-changed'' (period_detail s) w4
                in (s\<lparr>successMessage := success_text data, files := [],
                      loading := False, confirmOpen := False\<rparr>, w5))))"

text \<open>The button \<open>Annuler\<close> of the dialog, and the dialog's \<open>onClose\<close>.\<close>

definition annuler :: "upload_section \<times> world \<Rightarrow> upload_section \<times> world" where
  "annuler sw = ((fst sw)\<lparr>confirmOpen := False\<rparr>, snd sw)"

definition onClose :: "upload_section \<times> world \<Rightarrow> upload_section \<times> world" where
  "onClose sw = (if \<not> loading (fst sw) then ((fst sw)\<lparr>confirmOpen := False\<rparr>, snd sw) else sw)"

text \<open>
  The states of the orchestrator, read off the component's flags: it is idle when neither the
  dialog is open nor a run in progress, it awaits confirmation while the dialog is open, and
  it has failed when it is idle with an error message to show.
\<close>

definition Idle :: "upload_section \<Rightarrow> bool" where
  "Idle s = (\<not> confirmOpen s \<and> \<not> loading s)"

definition AwaitingConfirmation :: "upload_section \<Rightarrow> bool" where
  "AwaitingConfirmation s = (confirmOpen s \<and> \<not> loading s)"

definition Failed :: "upload_section \<Rightarrow> bool" where
  "Failed s = (Idle s \<and> error s \<noteq> [])"

text \<open>The checks of \<open>handleUploadClick\<close> as one predicate on the selection.\<close>

definition selection_ok :: "upload_section \<Rightarrow> bool" where
  "selection_ok s =
     (truthy_str (typeFichier s) \<and> truthy_str (mois s) \<and> truthy_num (annee s)
      \<and> files s \<noteq> [] \<and> (\<forall>f \<in> set (files s). \<not> not_xlsx f))"

text \<open>Counting the requests of a trace that go to a path of the backend.\<close>

fun is_post_to :: "string \<Rightarrow> effect \<Rightarrow> bool" where
  "is_post_to u (Request r) = (req_method r = POST \<and> req_url r = u)"
| "is_post_to u _ = False"

fun is_request :: "effect \<Rightarrow> bool" where
  "is_request (Request r) = True"
| "is_request _ = False"

fun is_dispatch :: "effect \<Rightarrow> bool" where
  "is_dispatch (Dispatch t e) = True"
| "is_dispatch _ = False"

fun is_store :: "effect \<Rightarrow> bool" where
  "is_store (SetItem k v) = True"
| "is_store _ = False"

definition count_where :: "('a \<Rightarrow> bool) \<Rightarrow> 'a list \<Rightarrow> nat" where
  "count_where P xs = length (filter P xs)"

section \<open>The observer panels\<close>

record period =
  p_mois :: string
  p_annee :: jsnum

definition period_set :: "period \<Rightarrow> bool" where
  "period_set p = (truthy_str (p_mois p) \<and> truthy_num (p_annee p))"

text \<open>\<open>Number(y)\<close> of a number is the number.\<close>

definition Number_num :: "jsnum \<Rightarrow> jsnum" where
  "Number_num y = y"

subsection \<open>AlertsPanel\<close>

definition readStoredPeriod :: "world \<Rightarrow> period" where
  "readStoredPeriod w =
     (let m = getItem ''analysisMonth'' w; a = getItem ''analysisYear'' w in
      \<lparr>p_mois = or_str m (monthNameFR w),
       p_annee = (case a of None \<Rightarrow> getFullYear w
                  | Some v \<Rightarrow> if truthy_str v then Number_str v else getFullYear w)\<rparr>)"

record alerts_panel =
  al_periode :: period
  al_loading :: bool
  al_items :: "json list"
  al_error :: json

definition AlertsPanel_init :: "world \<Rightarrow> alerts_panel" where
  "AlertsPanel_init w =
     \<lparr>al_periode = readStoredPeriod w, al_loading = True, al_items = [], al_error = JStr []\<rparr>"

definition AlertsPanel_headers :: "world \<Rightarrow> (string \<times> string) list" where
  "AlertsPanel_headers w =
     (let token = or_str (getItem ''token'' w) [] in
      if truthy_str token then [(''Authorization'', ''Bearer '' @ token)] else [])"

definition alerts_request :: "alerts_panel \<Rightarrow> world \<Rightarrow> request" where
  "alerts_request p w =
     \<lparr>req_method = GET,
      req_url = API_BASE w @ ''/ai/alerts'',
      req_params = [(''mois'', VStr (p_mois (al_periode p))),
                    (''annee'', VNum (p_annee (al_periode p))),
                    (''status'', VStr ''open'')],
      req_headers = AlertsPanel_headers w,
      req_body = NoBody\<rparr>"

text \<open>\<open>Array.isArray(data) ? data : []\<close>.\<close>

fun array_or_empty :: "json \<Rightarrow> json list" where
  "array_or_empty (JArr xs) = xs"
| "array_or_empty _ = []"

definition refresh :: "backend \<Rightarrow> alerts_panel \<times> world \<Rightarrow> alerts_panel \<times> world" where
  "refresh bk pw =
     (let p = (fst pw)\<lparr>al_loading := True, al_error := JStr []\<rparr>; w = snd pw in
      case send bk (alerts_request p w) w of
        (Resolved data, w1) \<Rightarrow> (p\<lparr>al_items := array_or_empty data, al_loading := False\<rparr>, w1)
      | (Rejected e, w1) \<Rightarrow>
          (p\<lparr>al_error := error_value e ''Erreur chargement alertes.'', al_loading := False\<rparr>, w1))"

definition AlertsPanel_handler :: "event \<Rightarrow> alerts_panel \<Rightarrow> alerts_panel" where
  "AlertsPanel_handler e p =
     (case e of
        None \<Rightarrow> p
      | Some d \<Rightarrow>
          (case (d_mois d, d_annee d) of
             (Some m, Some y) \<Rightarrow>
               if truthy_str m \<and> truthy_num y
               then p\<lparr>al_periode := \<lparr>p_mois = m, p_annee = Number_num y\<rparr>\<rparr> else p
           | _ \<Rightarrow> p))"

text \<open>The effect that listens (the handler is identified by a number) and its cleanup.\<close>

definition AlertsPanel_mount :: "nat \<Rightarrow> world \<Rightarrow> world" where
  "AlertsPanel_mount h w = addEventListener ''analysis-period-changed'' h w"

definition AlertsPanel_unmount :: "nat \<Rightarrow> world \<Rightarrow> world" where
  "AlertsPanel_unmount h w = removeEventListener ''analysis-period-changed'' h w"

subsection \<open>Dashboard\<close>

record dashboard =
  da_period :: period

definition Dashboard_init :: "world \<Rightarrow> dashboard" where
  "Dashboard_init w =
     (let currentMonth = monthNameFR w; currentYear = getFullYear w;
          y = Number_opt_str (getItem ''analysisYear'' w) in
      \<lparr>da_period = \<lparr>p_mois = or_str (getItem ''analysisMonth'' w) currentMonth,
                    p_annee = (if truthy_num y then y else currentYear)\<rparr>\<rparr>)"

definition onPeriod :: "event \<Rightarrow> dashboard \<Rightarrow> dashboard" where
  "onPeriod e s =
     (case e of
        None \<Rightarrow> s
      | Some d \<Rightarrow>
          (case (d_mois d, d_annee d) of
             (Some m, Some y) \<Rightarrow>
               if truthy_str m \<and> truthy_num y
               then s\<lparr>da_period := \<lparr>p_mois = m, p_annee = Number_num y\<rparr>\<rparr> else s
           | _ \<Rightarrow> s))"

definition Dashboard_mount :: "nat \<Rightarrow> world \<Rightarrow> world" where
  "Dashboard_mount h w = addEventListener ''analysis-period-changed'' h w"

definition Dashboard_unmount :: "nat \<Rightarrow> world \<Rightarrow> world" where
  "Dashboard_unmount h w = removeEventListener ''analysis-period-changed'' h w"

subsection \<open>AnomaliesPanel\<close>

record anomalies_panel =
  an_loading :: bool
  an_items :: "json list"
  an_error :: json

definition anomalies_request :: "period \<Rightarrow> world \<Rightarrow> request" where
  "anomalies_request props w =
     \<lparr>req_method = GET,
      req_url = API_BASE w @ ''/ai/anomalies'',
      req_params = [(''mois'', VStr (p_mois props)), (''annee'', VNum (p_annee props))],
      req_headers = [(''Authorization'', authorization (getItem ''token'' w))],
      req_body = NoBody\<rparr>"

text \<open>The effect of \<open>AnomaliesPanel\<close>, run while the panel stays mounted.\<close>

definition AnomaliesPanel_effect ::
  "backend \<Rightarrow> period \<Rightarrow> anomalies_panel \<times> world \<Rightarrow> anomalies_panel \<times> world" where
  "AnomaliesPanel_effect bk props pw =
     (let p = (fst pw)\<lparr>an_loading := True, an_error := JStr []\<rparr>; w = snd pw in
      case send bk (anomalies_request props w) w of
        (Resolved data, w1) \<Rightarrow> (p\<lparr>an_items := array_or_empty data, an_loading := False\<rparr>, w1)
      | (Rejected e, w1) \<Rightarrow>
          (p\<lparr>an_error := error_value e ''Erreur chargement anomalies.'', an_loading := False\<rparr>,
           w1))"

subsection \<open>AnalyticsSummary and the service \<open>getMonthSummary\<close>\<close>

record analytics_summary =
  as_mois :: string
  as_annee :: jsnum
  as_loading :: bool
  as_error :: string
  as_summary :: "json option"

definition AnalyticsSummary_init :: "world \<Rightarrow> analytics_summary" where
  "AnalyticsSummary_init w =
     \<lparr>as_mois = or_str (getItem ''analysisMonth'' w) (MOIS ! getMonth w),
      as_annee = (case getItem ''analysisYear'' w of
                    None \<Rightarrow> Number_num (getFullYear w)
                  | Some v \<Rightarrow> if truthy_str v then Number_str v else Number_num (getFullYear w)),
      as_loading = False, as_error = [], as_summary = None\<rparr>"

definition summary_request :: "string \<Rightarrow> jsnum \<Rightarrow> world \<Rightarrow> request" where
  "summary_request m y w =
     \<lparr>req_method = GET,
      req_url = API_BASE w @ ''/ai/summary'',
      req_params = [(''mois'', VStr m), (''annee'', VNum y)],
      req_headers = [(''Authorization'', authorization (getItem ''token'' w))],
      req_body = NoBody\<rparr>"

definition getMonthSummary :: "backend \<Rightarrow> string \<Rightarrow> jsnum \<Rightarrow> world \<Rightarrow> reply \<times> world" where
  "getMonthSummary bk m y w = send bk (summary_request m y w) w"

definition fetchSummary ::
  "backend \<Rightarrow> string \<Rightarrow> jsnum \<Rightarrow> analytics_summary \<times> world \<Rightarrow> analytics_summary \<times> world"
  where
  "fetchSummary bk m y sw =
     (let s = (fst sw)\<lparr>as_loading := True, as_error := []\<rparr>; w = snd sw in
      case getMonthSummary bk m y w of
        (Resolved data, w1) \<Rightarrow> (s\<lparr>as_summary := Some data, as_loading := False\<rparr>, w1)
      | (Rejected e, w1) \<Rightarrow>
          (s\<lparr>as_error := error_text e ''Erreur lors du chargement du resume.'',
             as_summary := None, as_loading := False\<rparr>, w1))"

definition onChange ::
  "backend \<Rightarrow> event \<Rightarrow> analytics_summary \<times> world \<Rightarrow> analytics_summary \<times> world" where
  "onChange bk ev sw =
     (case ev of
        None \<Rightarrow> sw
      | Some d \<Rightarrow>
          (case (d_mois d, d_annee d) of
             (Some m, Some y) \<Rightarrow>
               if truthy_str m \<and> truthy_num y
               then fetchSummary bk m (Number_num y)
                      ((fst sw)\<lparr>as_mois := m, as_annee := Number_num y\<rparr>, snd sw)
               else sw
           | _ \<Rightarrow> sw))"

definition AnalyticsSummary_mount :: "nat \<Rightarrow> world \<Rightarrow> world" where
  "AnalyticsSummary_mount h w = addEventListener ''analysis-period-changed'' h w"

definition AnalyticsSummary_unmount :: "nat \<Rightarrow> world \<Rightarrow> world" where
  "AnalyticsSummary_unmount h w = removeEventListener ''analysis-period-changed'' h w"

text \<open>The period shown by the summary view.\<close>

definition as_period :: "analytics_summary \<Rightarrow> period" where
  "as_period s = \<lparr>p_mois = as_mois s, p_annee = as_annee s\<rparr>"

subsection \<open>The service \<open>uploadExcels\<close>\<close>

record upload_args =
  a_type_fichier :: string
  a_mois :: string
  a_annee :: jsnum
  a_files :: "file_handle list option"

text \<open>A call fails with an \<open>Error\<close> thrown by the service itself or with the rejection of axios.\<close>

datatype failure = Thrown string | AxiosError http_error

definition service_request :: "upload_args \<Rightarrow> file_handle list \<Rightarrow> string \<Rightarrow> world \<Rightarrow> request" where
  "service_request a fs token w =
     \<lparr>req_method = POST,
      req_url = API_BASE w @ ''/upload-excel'',
      req_params = [],
      req_headers = [(''Authorization'', ''Bearer '' @ token),
                     (''Content-Type'', ''multipart/form-data'')],
      req_body = FormData ([(''type_fichier'', VStr (a_type_fichier a)),
                            (''mois'', VStr (a_mois a)),
                            (''annee'', VStr (String_num (a_annee a)))]
                           @ map (\<lambda>f. (''files'', VFile f)) fs)\<rparr>"

definition uploadExcels :: "backend \<Rightarrow> upload_args \<Rightarrow> world \<Rightarrow> (failure + json) \<times> world" where
  "uploadExcels bk a w =
     (if \<not> truthy_str (a_type_fichier a) \<or> \<not> truthy_str (a_mois a) \<or> \<not> truthy_num (a_annee a)
      then (Inl (Thrown ''Type, mois et annee sont obligatoires.''), w)
      else if a_files a = None \<or> a_files a = Some []
      then (Inl (Thrown ''Veuillez selectionner au moins un fichier .xlsx.''), w)
      else if \<not> truthy_opt_str (getItem ''token'' w)
      then (Inl (Thrown ''Token invalide ou expire''), w)
      else (case send bk (service_request a (case a_files a of None \<Rightarrow> [] | Some fs \<Rightarrow> fs)
                           (or_str (getItem ''token'' w) []) w) w of
              (Resolved data, w1) \<Rightarrow> (Inr data, w1)
            | (Rejected e, w1) \<Rightarrow> (Inl (AxiosError e), w1)))"

subsection \<open>What a handler has received\<close>

text \<open>The events with which the handler \<open>h\<close> has been invoked, oldest first.\<close>

definition received :: "nat \<Rightarrow> world \<Rightarrow> event list" where
  "received h w = map snd (filter (\<lambda>d. fst d = h) (delivered w))"

text \<open>The header's value under a name, as the backend reads it.\<close>

definition header :: "string \<Rightarrow> request \<Rightarrow> string option" where
  "header k r = map_of (req_headers r) k"

text \<open>A payload is complete when it carries a month and a year that are both truthy.\<close>

definition payload_complete :: "event \<Rightarrow> bool" where
  "payload_complete e =
     (case e of None \<Rightarrow> False
      | Some d \<Rightarrow> truthy_opt_str (d_mois d) \<and> truthy_opt_num (d_annee d))"

text \<open>How often a dispatch of type \<open>kind\<close> invokes the handler \<open>h\<close>, given the listeners.\<close>

definition invocations :: "string \<Rightarrow> nat \<Rightarrow> (string \<times> nat) list \<Rightarrow> nat" where
  "invocations kind h ls = count_list ls (kind, h)"

section \<open>A sample run\<close>

text \<open>
  The scenario of the specification: daily sales of March 2024 in one workbook, a browser with
  nothing stored and no listener, and backends that accept everything, refuse the upload, or
  fail in the analysis.
\<close>

definition w0 :: world where
  "w0 = \<lparr>localStorage = Map.empty, REACT_APP_API_BASE = None, now_month = 10, now_year = 2026,
         trace = [], listeners = [], delivered = []\<rparr>"

definition s_mars :: upload_section where
  "s_mars = \<lparr>files = [\<lparr>file_name = ''ventes.xlsx''\<rparr>], typeFichier = ''ventes_journalieres'',
             mois = ''mars'', annee = Num 2024, successMessage = [], error = [],
             confirmOpen = False, loading = False\<rparr>"

definition s_empty :: upload_section where
  "s_empty = s_mars\<lparr>files := []\<rparr>"

definition etl_ok :: json where
  "etl_ok = JObj [(''etl_summary'', JObj [(''rows_loaded'', JObj [(''ventes'', JNum (Num 10))])]),
                  (''analysis'', JObj [(''inserted_anomalies'', JNum (Num 2)),
                                       (''critical'', JNum (Num 0))])]"

definition err500 :: http_error where
  "err500 = \<lparr>response_detail = Some (JStr ''Internal Server Error''),
             err_message = Some ''Request failed with status code 500''\<rparr>"

definition err401 :: http_error where
  "err401 = \<lparr>response_detail = Some (JStr ''Not authenticated''),
             err_message = Some ''Request failed with status code 401''\<rparr>"

definition bk_ok :: backend where
  "bk_ok r = Resolved etl_ok"

definition bk_upload_500 :: backend where
  "bk_upload_500 r =
     (if req_url r = ''http://127.0.0.1:8000/upload-excel'' then Rejected err500
      else Resolved etl_ok)"

definition bk_etl_500 :: backend where
  "bk_etl_500 r =
     (if req_url r = ''http://127.0.0.1:8000/etl/load-month'' then Rejected err500
      else Resolved etl_ok)"

text \<open>A backend that rejects a request without a bearer credential.\<close>

definition bk_auth :: backend where
  "bk_auth r =
     (case header ''Authorization'' r of
        None \<Rightarrow> Rejected err401
      | Some v \<Rightarrow> if v = [] then Rejected err401 else Resolved etl_ok)"

text \<open>A payload with both fields, and a payload without the year.\<close>

definition ev_mars :: event where
  "ev_mars = Some \<lparr>d_mois = Some ''mars'', d_annee = Some (Num 2024)\<rparr>"

definition ev_no_year :: event where
  "ev_no_year = Some \<lparr>d_mois = Some ''avril'', d_annee = None\<rparr>"

text \<open>A browser that holds a token, and the arguments of the service for the same upload.\<close>

definition w_token :: world where
  "w_token = w0\<lparr>localStorage := [''token'' \<mapsto> ''abc'']\<rparr>"

definition args_mars :: upload_args where
  "args_mars = \<lparr>a_type_fichier = ''ventes_journalieres'', a_mois = ''mars'', a_annee = Num 2024,
                a_files = Some [\<lparr>file_name = ''ventes.xlsx''\<rparr>]\<rparr>"

section \<open>Properties of the number conversions\<close>

lemma below_ten:
  assumes "d < (10::nat)"
  shows "d \<in> {0, 1, 2, 3, 4, 5, 6, 7, 8, 9}"
  using assms by auto

lemma digit_val_digit_char: "d < 10 \<Longrightarrow> digit_val (digit_char d) = Some d"
  by (drule below_ten) (auto simp add: digit_val_def digit_char_def decimal_digits_def)

lemma digit_char_no_sign: "digit_char d \<noteq> CHR ''-'' \<and> digit_char d \<noteq> CHR ''+''"
proof -
  have "d mod 10 < 10" by simp
  then have "d mod 10 \<in> {0, 1, 2, 3, 4, 5, 6, 7, 8, 9}" by (rule below_ten)
  then show ?thesis
    by (auto simp add: digit_char_def decimal_digits_def)
qed

lemma parse_digits_append:
  "parse_digits acc (xs @ ys) =
     (case parse_digits acc xs of None \<Rightarrow> None | Some a \<Rightarrow> parse_digits a ys)"
  by (induction xs arbitrary: acc) (auto split: option.splits)

lemma parse_digits_of: "parse_digits 0 (digits_of n) = Some n"
proof (induction n rule: digits_of.induct)
  case (1 n)
  show ?case
  proof (cases "n < 10")
    case True
    then show ?thesis
      by (subst digits_of.simps) (simp add: digit_val_digit_char)
  next
    case False
    with 1 have ih: "parse_digits 0 (digits_of (n div 10)) = Some (n div 10)"
      by simp
    have "n mod 10 < 10" by simp
    then have dv: "digit_val (digit_char (n mod 10)) = Some (n mod 10)"
      by (rule digit_val_digit_char)
    show ?thesis
      using False by (subst digits_of.simps) (simp add: parse_digits_append ih dv)
  qed
qed

lemma digits_of_nonempty: "digits_of n \<noteq> []"
  by (subst digits_of.simps) simp

lemma digits_of_no_sign: "hd (digits_of n) \<noteq> CHR ''-'' \<and> hd (digits_of n) \<noteq> CHR ''+''"
proof (induction n rule: digits_of.induct)
  case (1 n)
  show ?case
  proof (cases "n < 10")
    case True
    then show ?thesis
      by (subst (1 2) digits_of.simps) (simp add: digit_char_no_sign)
  next
    case False
    with 1 show ?thesis
      by (subst (1 2) digits_of.simps) (simp add: digits_of_nonempty)
  qed
qed

lemma unsigned_num_digits_of: "unsigned_num (digits_of n) = Num (int n)"
  by (simp add: unsigned_num_def digits_of_nonempty parse_digits_of)

lemma Number_str_digits_of: "Number_str (digits_of n) = Num (int n)"
proof (cases "digits_of n")
  case Nil
  then show ?thesis using digits_of_nonempty by simp
next
  case (Cons c cs)
  with digits_of_no_sign [of n] have "c \<noteq> CHR ''-''" "c \<noteq> CHR ''+''" by simp_all
  with Cons unsigned_num_digits_of [of n] show ?thesis by simp
qed

lemma Number_String_num: "Number_str (String_num x) = x"
proof (cases x)
  case NaN
  then show ?thesis by (simp add: unsigned_num_def digit_val_def decimal_digits_def)
next
  case (Num n)
  then show ?thesis
    by (simp add: unsigned_num_digits_of Number_str_digits_of)
qed

lemma String_num_nonempty: "String_num x \<noteq> []"
  by (cases x) (simp_all add: digits_of_nonempty)

section \<open>Properties of the orchestrator\<close>

lemma upload_request_flags:
  "upload_request (s\<lparr>loading := b\<rparr>) w = upload_request s w"
  "upload_request (s\<lparr>successMessage := m, error := e\<rparr>) w = upload_request s w"
  "upload_request (s\<lparr>confirmOpen := c\<rparr>) w = upload_request s w"
  by (simp_all add: upload_request_def)

lemma etl_request_flags:
  "etl_request (s\<lparr>loading := b\<rparr>) w = etl_request s w"
  "etl_request (s\<lparr>successMessage := m, error := e\<rparr>) w = etl_request s w"
  "etl_request (s\<lparr>confirmOpen := c\<rparr>) w = etl_request s w"
  by (simp_all add: etl_request_def)

lemma period_detail_flags:
  "period_detail (s\<lparr>loading := b\<rparr>) = period_detail s"
  "period_detail (s\<lparr>successMessage := m, error := e\<rparr>) = period_detail s"
  "period_detail (s\<lparr>confirmOpen := c\<rparr>) = period_detail s"
  by (simp_all add: period_detail_def)

lemma perform_upload_rejected:
  assumes "bk (upload_request s w) = Rejected e"
  shows "performUploadAndAnalyze bk (s, w) =
           (upload_failed e (s\<lparr>loading := True\<rparr>),
            w\<lparr>trace := trace w @ [Request (upload_request s w)]\<rparr>)"
  using assms by (simp add: performUploadAndAnalyze_def send_def upload_request_flags)

lemma perform_etl_rejected:
  assumes "bk (upload_request s w) = Resolved u" and "bk (etl_request s w) = Rejected e"
  shows "performUploadAndAnalyze bk (s, w) =
           (upload_failed e (s\<lparr>loading := True\<rparr>),
            w\<lparr>trace := trace w @ [Request (upload_request s w), Request (etl_request s w)]\<rparr>)"
  using assms
  by (simp add: performUploadAndAnalyze_def send_def upload_request_flags etl_request_flags)

lemma perform_resolved:
  assumes "bk (upload_request s w) = Resolved u" and "bk (etl_request s w) = Resolved d"
  shows "performUploadAndAnalyze bk (s, w) =
           (s\<lparr>successMessage := success_text d, files := [], loading := False,
              confirmOpen := False\<rparr>,
            w\<lparr>localStorage := (localStorage w)(''analysisMonth'' \<mapsto> mois s,
                                                ''analysisYear'' \<mapsto> String_num (annee s)),
              trace := trace w @ [Request (upload_request s w), Request (etl_request s w),
                                  SetItem ''analysisMonth'' (mois s),
                                  SetItem ''analysisYear'' (String_num (annee s)),
                                  Dispatch ''analysis-period-changed'' (period_detail s)],
              delivered := delivered w @
                 map (\<lambda>l. (snd l, period_detail s))
                   (filter (\<lambda>l. fst l = ''analysis-period-changed'') (listeners w))\<rparr>)"
  using assms
  by (simp add: performUploadAndAnalyze_def send_def upload_request_flags etl_request_flags
      setItem_def dispatchEvent_def period_detail_flags)

lemma since_append: "since w (w'\<lparr>trace := trace w @ xs\<rparr>) = xs"
  by (simp add: since_def)

lemma find_not_xlsx_None: "(find not_xlsx fs = None) = (\<forall>f \<in> set fs. \<not> not_xlsx f)"
  by (auto simp add: find_None_iff)

lemma handle_accepts:
  assumes "selection_ok s"
  shows "handleUploadClick (s, w) = (s\<lparr>successMessage := [], error := [], confirmOpen := True\<rparr>, w)"
proof -
  from assms have "find not_xlsx (files s) = None"
    by (simp add: selection_ok_def find_not_xlsx_None)
  with assms show ?thesis
    by (simp add: handleUploadClick_def selection_ok_def Let_def)
qed

lemma handle_rejects:
  assumes "\<not> selection_ok s"
  shows "\<exists>msg. msg \<noteq> [] \<and> handleUploadClick (s, w) = (s\<lparr>successMessage := [], error := msg\<rparr>, w)"
proof (cases "find not_xlsx (files s)")
  case None
  with assms show ?thesis
    by (auto simp add: handleUploadClick_def selection_ok_def Let_def find_not_xlsx_None)
next
  case (Some f)
  then show ?thesis
    by (auto simp add: handleUploadClick_def Let_def)
qed

lemma error_text_nonempty:
  assumes "\<forall>xs. response_detail e \<noteq> Some (JArr xs)" and "d \<noteq> []"
  shows "error_text e d \<noteq> []"
proof (cases "response_detail e")
  case None
  with assms show ?thesis
    by (cases "err_message e") (simp_all add: error_text_def error_value_def truthy_str_def)
next
  case (Some v)
  have alt: "or_str (err_message e) d \<noteq> []"
    using assms(2) by (cases "err_message e") (simp_all add: truthy_str_def)
  from Some assms(1) show ?thesis
    by (cases v) (simp_all add: error_text_def error_value_def truthy_str_def alt
        String_num_nonempty)
qed

lemma upload_request_target:
  "req_method (upload_request s w) = POST" "req_url (upload_request s w) = API_BASE w @ ''/upload-excel''"
  by (simp_all add: upload_request_def)

lemma etl_request_target:
  "req_method (etl_request s w) = POST" "req_url (etl_request s w) = API_BASE w @ ''/etl/load-month''"
  by (simp_all add: etl_request_def)

lemma read_after_store:
  assumes "getItem ''analysisMonth'' w = Some m" and "m \<noteq> []"
    and "getItem ''analysisYear'' w = Some (String_num y)"
  shows "readStoredPeriod w = \<lparr>p_mois = m, p_annee = y\<rparr>"
    and "as_period (AnalyticsSummary_init w) = \<lparr>p_mois = m, p_annee = y\<rparr>"
    and "truthy_num y \<Longrightarrow> da_period (Dashboard_init w) = \<lparr>p_mois = m, p_annee = y\<rparr>"
  using assms
  by (simp_all add: readStoredPeriod_def AnalyticsSummary_init_def Dashboard_init_def as_period_def
      truthy_str_def String_num_nonempty Number_String_num Let_def)

lemma read_nothing_stored:
  assumes "getItem ''analysisMonth'' w = None" and "getItem ''analysisYear'' w = None"
  shows "readStoredPeriod w = \<lparr>p_mois = monthNameFR w, p_annee = getFullYear w\<rparr>"
    and "as_period (AnalyticsSummary_init w) = \<lparr>p_mois = monthNameFR w, p_annee = getFullYear w\<rparr>"
  using assms
  by (simp_all add: readStoredPeriod_def AnalyticsSummary_init_def as_period_def Number_num_def
      monthNameFR_def Let_def)

section \<open>The claims about the upload and analysis cycle\<close>

text \<open>
  C2: if the upload request fails, no analysis request is sent; and if the upload request or
  the analysis request fails, \<open>localStorage\<close> (so the entries \<open>analysisMonth\<close> and
  \<open>analysisYear\<close>) is unchanged, nothing is stored, no event is dispatched and no handler
  is invoked.
\<close>

theorem failure_publishes_nothing:
  assumes run: "performUploadAndAnalyze bk (s, w) = (s', w')"
  shows "(\<forall>e. bk (upload_request s w) = Rejected e \<longrightarrow>
            count_where (is_post_to (API_BASE w @ ''/etl/load-month'')) (since w w') = 0)
       \<and> ((\<exists>e. bk (upload_request s w) = Rejected e) \<or> (\<exists>e. bk (etl_request s w) = Rejected e) \<longrightarrow>
            localStorage w' = localStorage w \<and> count_where is_store (since w w') = 0
            \<and> count_where is_dispatch (since w w') = 0 \<and> delivered w' = delivered w)"
proof (cases "bk (upload_request s w)")
  case (Rejected e)
  from perform_upload_rejected [where bk = bk and s = s and w = w, OF Rejected] run
  have w': "w' = w\<lparr>trace := trace w @ [Request (upload_request s w)]\<rparr>"
    by simp
  show ?thesis
    by (simp add: w' since_append count_where_def upload_request_target)
next
  case (Resolved u)
  note up = Resolved
  show ?thesis
  proof (cases "bk (etl_request s w)")
    case (Rejected e)
    from perform_etl_rejected [where bk = bk and s = s and w = w, OF up Rejected] run
    have w': "w' = w\<lparr>trace := trace w @ [Request (upload_request s w), Request (etl_request s w)]\<rparr>"
      by simp
    show ?thesis
      by (simp add: w' since_append count_where_def up)
  next
    case (Resolved d)
    with up show ?thesis by simp
  qed
qed

theorem failure_publishes_nothing_witness:
  "bk_etl_500 (upload_request s_mars w0) = Resolved etl_ok
   \<and> bk_etl_500 (etl_request s_mars w0) = Rejected err500
   \<and> localStorage (snd (performUploadAndAnalyze bk_etl_500 (s_mars, w0))) = localStorage w0
   \<and> count_where is_store (since w0 (snd (performUploadAndAnalyze bk_etl_500 (s_mars, w0)))) = 0
   \<and> count_where is_dispatch (since w0 (snd (performUploadAndAnalyze bk_etl_500 (s_mars, w0)))) = 0
   \<and> delivered (snd (performUploadAndAnalyze bk_etl_500 (s_mars, w0))) = delivered w0"
proof -
  have run: "performUploadAndAnalyze bk_etl_500 (s_mars, w0) =
      (fst (performUploadAndAnalyze bk_etl_500 (s_mars, w0)),
       snd (performUploadAndAnalyze bk_etl_500 (s_mars, w0)))"
    by simp
  have up: "bk_etl_500 (upload_request s_mars w0) = Resolved etl_ok"
    by (simp add: bk_etl_500_def upload_request_def API_BASE_def w0_def)
  have an: "bk_etl_500 (etl_request s_mars w0) = Rejected err500"
    by (simp add: bk_etl_500_def etl_request_def API_BASE_def w0_def)
  from failure_publishes_nothing [OF run] up an show ?thesis
    by blast
qed

text \<open>
  C1: for a selection that passes the checks of \<open>handleUploadClick\<close>, submitting opens
  the dialog without touching the browser, and confirming sends exactly one
  \<open>POST /upload-excel\<close>; once the backend has accepted it, exactly one
  \<open>POST /etl/load-month\<close> follows it, in that order, and the two entries are stored and
  the event is dispatched only when the analysis request succeeds, after it. A refused
  upload ends the cycle with the upload request alone.
\<close>

theorem cycle_requests_in_order:
  assumes idle: "Idle s" and ok: "selection_ok s"
    and submit: "handleUploadClick (s, w) = (s1, w1)"
    and confirm: "performUploadAndAnalyze bk (s1, w1) = (s2, w2)"
  shows "AwaitingConfirmation s1 \<and> w1 = w
       \<and> count_where (is_post_to (API_BASE w @ ''/upload-excel'')) (since w w2) = 1
       \<and> (\<forall>e. bk (upload_request s w) = Rejected e \<longrightarrow>
            since w w2 = [Request (upload_request s w)])
       \<and> (\<forall>u. bk (upload_request s w) = Resolved u \<longrightarrow>
            count_where (is_post_to (API_BASE w @ ''/etl/load-month'')) (since w w2) = 1
            \<and> take 2 (since w w2) = [Request (upload_request s w), Request (etl_request s w)]
            \<and> (\<forall>e. bk (etl_request s w) = Rejected e \<longrightarrow>
                 since w w2 = [Request (upload_request s w), Request (etl_request s w)])
            \<and> (\<forall>d. bk (etl_request s w) = Resolved d \<longrightarrow>
                 since w w2 = [Request (upload_request s w), Request (etl_request s w),
                               SetItem ''analysisMonth'' (mois s),
                               SetItem ''analysisYear'' (String_num (annee s)),
                               Dispatch ''analysis-period-changed'' (period_detail s)]))"
proof -
  from handle_accepts [OF ok, of w] submit
  have s1: "s1 = s\<lparr>successMessage := [], error := [], confirmOpen := True\<rparr>" and w1: "w1 = w"
    by simp_all
  have up1: "upload_request s1 w = upload_request s w" and an1: "etl_request s1 w = etl_request s w"
    and pd1: "period_detail s1 = period_detail s"
    by (simp_all add: s1 upload_request_def etl_request_def period_detail_def)
  have fields: "mois s1 = mois s" "annee s1 = annee s"
    by (simp_all add: s1)
  from idle have await: "AwaitingConfirmation s1"
    by (simp add: s1 Idle_def AwaitingConfirmation_def)
  show ?thesis
  proof (cases "bk (upload_request s w)")
    case (Rejected e)
    then have "bk (upload_request s1 w) = Rejected e" by (simp add: up1)
    from perform_upload_rejected [where bk = bk and s = s1 and w = w, OF this] confirm
    have w2: "w2 = w\<lparr>trace := trace w @ [Request (upload_request s w)]\<rparr>"
      by (simp add: w1 up1)
    show ?thesis
      by (simp add: await w1 w2 since_append count_where_def upload_request_target Rejected)
  next
    case (Resolved u)
    note up = Resolved
    then have up': "bk (upload_request s1 w) = Resolved u" by (simp add: up1)
    show ?thesis
    proof (cases "bk (etl_request s w)")
      case (Rejected e)
      then have "bk (etl_request s1 w) = Rejected e" by (simp add: an1)
      from perform_etl_rejected [where bk = bk and s = s1 and w = w, OF up' this] confirm
      have w2: "w2 = w\<lparr>trace := trace w @ [Request (upload_request s w), Request (etl_request s w)]\<rparr>"
        by (simp add: w1 up1 an1)
      show ?thesis
        by (simp add: await w1 w2 since_append count_where_def upload_request_target
            etl_request_target up Rejected)
    next
      case (Resolved d)
      then have "bk (etl_request s1 w) = Resolved d" by (simp add: an1)
      from perform_resolved [where bk = bk and s = s1 and w = w, OF up' this] confirm
      have w2: "since w w2 = [Request (upload_request s w), Request (etl_request s w),
                              SetItem ''analysisMonth'' (mois s),
                              SetItem ''analysisYear'' (String_num (annee s)),
                              Dispatch ''analysis-period-changed'' (period_detail s)]"
        by (auto simp add: w1 up1 an1 pd1 fields since_def)
      show ?thesis
        by (simp add: await w1 w2 count_where_def upload_request_target etl_request_target
            up Resolved)
    qed
  qed
qed

theorem cycle_requests_in_order_witness:
  "Idle s_mars \<and> selection_ok s_mars
   \<and> bk_ok (upload_request s_mars w0) = Resolved etl_ok
   \<and> bk_ok (etl_request s_mars w0) = Resolved etl_ok
   \<and> count_where (is_post_to (API_BASE w0 @ ''/upload-excel''))
         (since w0 (snd (performUploadAndAnalyze bk_ok (handleUploadClick (s_mars, w0))))) = 1
   \<and> count_where (is_post_to (API_BASE w0 @ ''/etl/load-month''))
         (since w0 (snd (performUploadAndAnalyze bk_ok (handleUploadClick (s_mars, w0))))) = 1
   \<and> since w0 (snd (performUploadAndAnalyze bk_ok (handleUploadClick (s_mars, w0)))) =
        [Request (upload_request s_mars w0), Request (etl_request s_mars w0),
         SetItem ''analysisMonth'' ''mars'', SetItem ''analysisYear'' (String_num (Num 2024)),
         Dispatch ''analysis-period-changed'' ev_mars]"
proof -
  have idle: "Idle s_mars"
    by (simp add: Idle_def s_mars_def)
  have ok: "selection_ok s_mars"
    by (simp add: selection_ok_def s_mars_def truthy_str_def not_xlsx_def endsWith_def
        toLowerCase_def lower_char_def)
  have submit: "handleUploadClick (s_mars, w0) =
      (fst (handleUploadClick (s_mars, w0)), snd (handleUploadClick (s_mars, w0)))"
    by simp
  have confirm: "performUploadAndAnalyze bk_ok
        (fst (handleUploadClick (s_mars, w0)), snd (handleUploadClick (s_mars, w0))) =
      (fst (performUploadAndAnalyze bk_ok (handleUploadClick (s_mars, w0))),
       snd (performUploadAndAnalyze bk_ok (handleUploadClick (s_mars, w0))))"
    by simp
  have up: "bk_ok (upload_request s_mars w0) = Resolved etl_ok"
    and an: "bk_ok (etl_request s_mars w0) = Resolved etl_ok"
    by (simp_all add: bk_ok_def)
  have vals: "mois s_mars = ''mars''" "annee s_mars = Num 2024" "period_detail s_mars = ev_mars"
    by (simp_all add: s_mars_def period_detail_def ev_mars_def)
  from cycle_requests_in_order [OF idle ok submit confirm, unfolded vals] up an idle ok
  show ?thesis
    by blast
qed

text \<open>
  C3: in a cycle where both requests succeed, exactly one event is dispatched, carrying the
  submitted month and year, and afterwards every reader of the stored period
  (\<open>readStoredPeriod\<close>, the initial state of \<open>AnalyticsSummary\<close>, the initial state of
  \<open>Dashboard\<close>) returns the submitted month and year.
\<close>

theorem success_publishes_once:
  assumes ok: "selection_ok s"
    and submit: "handleUploadClick (s, w) = (s1, w1)"
    and confirm: "performUploadAndAnalyze bk (s1, w1) = (s2, w2)"
    and up: "bk (upload_request s w) = Resolved u"
    and an: "bk (etl_request s w) = Resolved d"
  shows "count_where is_dispatch (since w w2) = 1
       \<and> filter is_dispatch (since w w2) =
           [Dispatch ''analysis-period-changed''
              (Some \<lparr>d_mois = Some (mois s), d_annee = Some (annee s)\<rparr>)]
       \<and> readStoredPeriod w2 = \<lparr>p_mois = mois s, p_annee = annee s\<rparr>
       \<and> as_period (AnalyticsSummary_init w2) = \<lparr>p_mois = mois s, p_annee = annee s\<rparr>
       \<and> da_period (Dashboard_init w2) = \<lparr>p_mois = mois s, p_annee = annee s\<rparr>"
proof -
  from handle_accepts [OF ok, of w] submit
  have s1: "s1 = s\<lparr>successMessage := [], error := [], confirmOpen := True\<rparr>" and w1: "w1 = w"
    by simp_all
  have up1: "upload_request s1 w = upload_request s w" and an1: "etl_request s1 w = etl_request s w"
    and pd1: "period_detail s1 = period_detail s"
    by (simp_all add: s1 upload_request_def etl_request_def period_detail_def)
  have fields: "mois s1 = mois s" "annee s1 = annee s"
    by (simp_all add: s1)
  from up an have "bk (upload_request s1 w) = Resolved u" and "bk (etl_request s1 w) = Resolved d"
    by (simp_all add: up1 an1)
  from perform_resolved [where bk = bk and s = s1 and w = w, OF this] confirm
  have tr: "since w w2 = [Request (upload_request s w), Request (etl_request s w),
                          SetItem ''analysisMonth'' (mois s),
                          SetItem ''analysisYear'' (String_num (annee s)),
                          Dispatch ''analysis-period-changed'' (period_detail s)]"
    and month: "getItem ''analysisMonth'' w2 = Some (mois s)"
    and year: "getItem ''analysisYear'' w2 = Some (String_num (annee s))"
    by (auto simp add: w1 up1 an1 pd1 fields since_def getItem_def)
  from ok have m: "mois s \<noteq> []" and y: "truthy_num (annee s)"
    by (simp_all add: selection_ok_def truthy_str_def)
  from read_after_store [OF month m year] y
  show ?thesis
    by (simp add: tr count_where_def period_detail_def)
qed

theorem success_publishes_once_witness:
  "selection_ok s_mars
   \<and> bk_ok (upload_request s_mars w0) = Resolved etl_ok
   \<and> bk_ok (etl_request s_mars w0) = Resolved etl_ok
   \<and> count_where is_dispatch
        (since w0 (snd (performUploadAndAnalyze bk_ok (handleUploadClick (s_mars, w0))))) = 1
   \<and> readStoredPeriod (snd (performUploadAndAnalyze bk_ok (handleUploadClick (s_mars, w0)))) =
        \<lparr>p_mois = ''mars'', p_annee = Num 2024\<rparr>"
proof -
  have ok: "selection_ok s_mars"
    by (simp add: selection_ok_def s_mars_def truthy_str_def not_xlsx_def endsWith_def
        toLowerCase_def lower_char_def)
  have submit: "handleUploadClick (s_mars, w0) =
      (fst (handleUploadClick (s_mars, w0)), snd (handleUploadClick (s_mars, w0)))"
    by simp
  have confirm: "performUploadAndAnalyze bk_ok
        (fst (handleUploadClick (s_mars, w0)), snd (handleUploadClick (s_mars, w0))) =
      (fst (performUploadAndAnalyze bk_ok (handleUploadClick (s_mars, w0))),
       snd (performUploadAndAnalyze bk_ok (handleUploadClick (s_mars, w0))))"
    by simp
  have up: "bk_ok (upload_request s_mars w0) = Resolved etl_ok"
    and an: "bk_ok (etl_request s_mars w0) = Resolved etl_ok"
    by (simp_all add: bk_ok_def)
  have vals: "mois s_mars = ''mars''" "annee s_mars = Num 2024"
    by (simp_all add: s_mars_def)
  from success_publishes_once [OF ok submit confirm up an, unfolded vals] ok up an
  show ?thesis
    by blast
qed

text \<open>
  C5, as the code has it: when the upload request or the analysis request is rejected, the
  orchestrator is idle again with the rejection's text as its error, it has failed whenever
  the backend's \<open>detail\<close> is not an array, and the selection (files, file type, month and
  year) is kept as it was.
\<close>

theorem failure_keeps_selection:
  assumes confirm: "performUploadAndAnalyze bk (s, w) = (s', w')"
    and failure: "bk (upload_request s w) = Rejected e
                  \<or> (bk (upload_request s w) = Resolved u \<and> bk (etl_request s w) = Rejected e)"
  shows "Idle s'
       \<and> error s' = error_text e ''Erreur durant l'operation (upload/ETL/IA).''
       \<and> ((\<forall>xs. response_detail e \<noteq> Some (JArr xs)) \<longrightarrow> Failed s')
       \<and> files s' = files s \<and> typeFichier s' = typeFichier s
       \<and> mois s' = mois s \<and> annee s' = annee s"
proof -
  from failure have "performUploadAndAnalyze bk (s, w) =
      (upload_failed e (s\<lparr>loading := True\<rparr>), snd (performUploadAndAnalyze bk (s, w)))"
    by (auto simp add: perform_upload_rejected perform_etl_rejected)
  with confirm have s': "s' = upload_failed e (s\<lparr>loading := True\<rparr>)"
    by simp
  have idle: "Idle s'"
    by (simp add: s' upload_failed_def Idle_def)
  have err: "error s' = error_text e ''Erreur durant l'operation (upload/ETL/IA).''"
    by (simp add: s' upload_failed_def)
  have failed: "Failed s'" if "\<forall>xs. response_detail e \<noteq> Some (JArr xs)"
    using that idle err by (simp add: Failed_def error_text_nonempty)
  have kept: "files s' = files s" "typeFichier s' = typeFichier s" "mois s' = mois s"
    "annee s' = annee s"
    by (simp_all add: s' upload_failed_def)
  from idle err failed kept show ?thesis
    by blast
qed

theorem failure_keeps_selection_witness:
  "bk_upload_500 (upload_request s_mars w0) = Rejected err500
   \<and> (\<forall>xs. response_detail err500 \<noteq> Some (JArr xs))
   \<and> Failed (fst (performUploadAndAnalyze bk_upload_500 (s_mars, w0)))
   \<and> files (fst (performUploadAndAnalyze bk_upload_500 (s_mars, w0))) = files s_mars"
proof -
  have run: "performUploadAndAnalyze bk_upload_500 (s_mars, w0) =
      (fst (performUploadAndAnalyze bk_upload_500 (s_mars, w0)),
       snd (performUploadAndAnalyze bk_upload_500 (s_mars, w0)))"
    by simp
  have up: "bk_upload_500 (upload_request s_mars w0) = Rejected err500"
    by (simp add: bk_upload_500_def upload_request_def API_BASE_def w0_def)
  then have failure: "bk_upload_500 (upload_request s_mars w0) = Rejected err500
      \<or> (bk_upload_500 (upload_request s_mars w0) = Resolved etl_ok
         \<and> bk_upload_500 (etl_request s_mars w0) = Rejected err500)"
    by simp
  have detail: "\<forall>xs. response_detail err500 \<noteq> Some (JArr xs)"
    by (simp add: err500_def)
  from failure_keeps_selection [OF run failure] up detail show ?thesis
    by blast
qed

text \<open>
  C5 as it is stated fails: after a refused upload the selected file is still selected.
\<close>

theorem refused_upload_keeps_files:
  "bk_upload_500 (upload_request s_mars w0) = Rejected err500
   \<and> files (fst (performUploadAndAnalyze bk_upload_500 (handleUploadClick (s_mars, w0)))) =
       [\<lparr>file_name = ''ventes.xlsx''\<rparr>]"
proof -
  have ok: "selection_ok s_mars"
    by (simp add: selection_ok_def s_mars_def truthy_str_def not_xlsx_def endsWith_def
        toLowerCase_def lower_char_def)
  have up: "bk_upload_500 (upload_request s_mars w0) = Rejected err500"
    by (simp add: bk_upload_500_def upload_request_def API_BASE_def w0_def)
  then have "bk_upload_500
      (upload_request (s_mars\<lparr>successMessage := [], error := [], confirmOpen := True\<rparr>) w0) =
      Rejected err500"
    by (simp add: upload_request_def)
  then have "fst (performUploadAndAnalyze bk_upload_500
      (s_mars\<lparr>successMessage := [], error := [], confirmOpen := True\<rparr>, w0)) =
      upload_failed err500 (s_mars\<lparr>successMessage := [], error := [], confirmOpen := True,
                                   loading := True\<rparr>)"
    by (simp add: perform_upload_rejected)
  then have "files (fst (performUploadAndAnalyze bk_upload_500
      (s_mars\<lparr>successMessage := [], error := [], confirmOpen := True\<rparr>, w0))) = files s_mars"
    by (simp add: upload_failed_def)
  then have "files (fst (performUploadAndAnalyze bk_upload_500 (handleUploadClick (s_mars, w0)))) =
      files s_mars"
    by (simp only: handle_accepts [OF ok])
  then show ?thesis
    using up by (simp add: s_mars_def)
qed

text \<open>
  C6: when the file type, the month or the year is missing, when no file is selected, or
  when some file does not pass the \<open>.xlsx\<close> filter (its name in lower case does not end
  in \<open>.xlsx\<close>), submitting sets a validation message, leaves the browser untouched (no
  request, nothing stored, nothing dispatched) and does not open the dialog: an idle
  orchestrator stays idle.
\<close>

theorem invalid_selection_rejected:
  assumes invalid: "typeFichier s = [] \<or> mois s = [] \<or> \<not> truthy_num (annee s) \<or> files s = []
                    \<or> (\<exists>f \<in> set (files s). \<not> endsWith (toLowerCase (file_name f)) ''.xlsx'')"
    and submit: "handleUploadClick (s, w) = (s', w')"
  shows "error s' \<noteq> [] \<and> w' = w \<and> since w w' = []
       \<and> confirmOpen s' = confirmOpen s \<and> loading s' = loading s \<and> (Idle s \<longrightarrow> Idle s')
       \<and> files s' = files s"
proof -
  from invalid have "\<not> selection_ok s"
    by (auto simp add: selection_ok_def truthy_str_def not_xlsx_def)
  from handle_rejects [OF this, of w] obtain msg where
    msg: "msg \<noteq> []" and run: "handleUploadClick (s, w) = (s\<lparr>successMessage := [], error := msg\<rparr>, w)"
    by blast
  from run submit have s': "s' = s\<lparr>successMessage := [], error := msg\<rparr>" and w': "w' = w"
    by simp_all
  show ?thesis
    by (simp add: s' w' msg since_def Idle_def)
qed

theorem invalid_selection_rejected_witness:
  "files s_empty = [] \<and> Idle s_empty
   \<and> handleUploadClick (s_empty, w0) =
       (s_empty\<lparr>error := ''Veuillez selectionner au moins un fichier .xlsx.''\<rparr>, w0)
   \<and> error (fst (handleUploadClick (s_empty, w0))) \<noteq> []
   \<and> since w0 (snd (handleUploadClick (s_empty, w0))) = []
   \<and> Idle (fst (handleUploadClick (s_empty, w0)))"
proof -
  have empty: "files s_empty = []" and idle: "Idle s_empty"
    by (simp_all add: s_empty_def s_mars_def Idle_def)
  then have invalid: "typeFichier s_empty = [] \<or> mois s_empty = [] \<or> \<not> truthy_num (annee s_empty)
      \<or> files s_empty = []
      \<or> (\<exists>f \<in> set (files s_empty). \<not> endsWith (toLowerCase (file_name f)) ''.xlsx'')"
    by simp
  have submit: "handleUploadClick (s_empty, w0) =
      (fst (handleUploadClick (s_empty, w0)), snd (handleUploadClick (s_empty, w0)))"
    by simp
  have run: "handleUploadClick (s_empty, w0) =
      (s_empty\<lparr>error := ''Veuillez selectionner au moins un fichier .xlsx.''\<rparr>, w0)"
    by (simp add: handleUploadClick_def s_empty_def s_mars_def truthy_str_def)
  from invalid_selection_rejected [OF invalid submit] empty idle run show ?thesis
    by blast
qed

text \<open>
  C7: when the dialog has been opened by a valid submission and the user declines, by the
  button \<open>Annuler\<close> or by closing the dialog, the browser is as it was before the
  submission (no request is sent) and the orchestrator is idle.
\<close>

theorem cancel_sends_nothing:
  assumes idle: "Idle s" and ok: "selection_ok s"
    and submit: "handleUploadClick (s, w) = (s1, w1)"
  shows "AwaitingConfirmation s1
       \<and> Idle (fst (annuler (s1, w1))) \<and> snd (annuler (s1, w1)) = w
       \<and> count_where is_request (since w (snd (annuler (s1, w1)))) = 0
       \<and> Idle (fst (onClose (s1, w1))) \<and> snd (onClose (s1, w1)) = w
       \<and> count_where is_request (since w (snd (onClose (s1, w1)))) = 0"
proof -
  from handle_accepts [OF ok, of w] submit
  have s1: "s1 = s\<lparr>successMessage := [], error := [], confirmOpen := True\<rparr>" and w1: "w1 = w"
    by simp_all
  from idle show ?thesis
    by (simp add: s1 w1 Idle_def AwaitingConfirmation_def annuler_def onClose_def since_def
        count_where_def)
qed

theorem cancel_sends_nothing_witness:
  "Idle s_mars \<and> selection_ok s_mars
   \<and> AwaitingConfirmation (fst (handleUploadClick (s_mars, w0)))
   \<and> Idle (fst (annuler (handleUploadClick (s_mars, w0))))
   \<and> snd (annuler (handleUploadClick (s_mars, w0))) = w0
   \<and> Idle (fst (onClose (handleUploadClick (s_mars, w0))))
   \<and> snd (onClose (handleUploadClick (s_mars, w0))) = w0"
proof -
  have idle: "Idle s_mars"
    by (simp add: Idle_def s_mars_def)
  have ok: "selection_ok s_mars"
    by (simp add: selection_ok_def s_mars_def truthy_str_def not_xlsx_def endsWith_def
        toLowerCase_def lower_char_def)
  have submit: "handleUploadClick (s_mars, w0) =
      (fst (handleUploadClick (s_mars, w0)), snd (handleUploadClick (s_mars, w0)))"
    by simp
  from cancel_sends_nothing [OF idle ok submit] idle ok show ?thesis
    by simp
qed

section \<open>The claims about the stored period and the event channel\<close>

lemma MOIS_length: "length MOIS = 12"
  by (simp add: MOIS_def)

lemma getMonth_bound: "getMonth w < 12"
  by (simp add: getMonth_def)

lemma getItem_setItem:
  "getItem k (setItem k v w) = Some v"
  "k' \<noteq> k \<Longrightarrow> getItem k' (setItem k v w) = getItem k' w"
  by (simp_all add: getItem_def setItem_def)

text \<open>
  C8: when neither entry is stored, \<open>readStoredPeriod\<close> and the initial state of
  \<open>AnalyticsSummary\<close> give the name of the current month (one of the twelve of \<open>MOIS\<close>)
  and the current year; after the month \<open>m\<close> and the year \<open>y\<close> have been stored, whatever
  was stored before, they give \<open>m\<close> and \<open>y\<close>.
\<close>

theorem stored_period_or_today:
  "(getItem ''analysisMonth'' w = None \<and> getItem ''analysisYear'' w = None \<longrightarrow>
      readStoredPeriod w = \<lparr>p_mois = MOIS ! getMonth w, p_annee = Num (now_year w)\<rparr>
      \<and> as_period (AnalyticsSummary_init w) =
          \<lparr>p_mois = MOIS ! getMonth w, p_annee = Num (now_year w)\<rparr>
      \<and> MOIS ! getMonth w \<in> set MOIS)
   \<and> (m \<noteq> [] \<longrightarrow>
      readStoredPeriod (setItem ''analysisYear'' (String_num y) (setItem ''analysisMonth'' m w)) =
        \<lparr>p_mois = m, p_annee = y\<rparr>
      \<and> as_period (AnalyticsSummary_init
           (setItem ''analysisYear'' (String_num y) (setItem ''analysisMonth'' m w))) =
        \<lparr>p_mois = m, p_annee = y\<rparr>)"
proof -
  have today: "readStoredPeriod w = \<lparr>p_mois = MOIS ! getMonth w, p_annee = Num (now_year w)\<rparr>
      \<and> as_period (AnalyticsSummary_init w) =
          \<lparr>p_mois = MOIS ! getMonth w, p_annee = Num (now_year w)\<rparr>
      \<and> MOIS ! getMonth w \<in> set MOIS"
    if "getItem ''analysisMonth'' w = None" and "getItem ''analysisYear'' w = None"
    using read_nothing_stored [OF that] getMonth_bound [of w]
    by (simp add: monthNameFR_def getFullYear_def MOIS_length)
  let ?w = "setItem ''analysisYear'' (String_num y) (setItem ''analysisMonth'' m w)"
  have month: "getItem ''analysisMonth'' ?w = Some m"
    and year: "getItem ''analysisYear'' ?w = Some (String_num y)"
    by (simp_all add: getItem_setItem)
  have stored: "readStoredPeriod ?w = \<lparr>p_mois = m, p_annee = y\<rparr>
      \<and> as_period (AnalyticsSummary_init ?w) = \<lparr>p_mois = m, p_annee = y\<rparr>"
    if "m \<noteq> []"
    using read_after_store(1,2) [OF month that year] by simp
  from today stored show ?thesis
    by blast
qed

theorem stored_period_or_today_witness:
  "getItem ''analysisMonth'' w0 = None \<and> getItem ''analysisYear'' w0 = None
   \<and> readStoredPeriod w0 = \<lparr>p_mois = ''novembre'', p_annee = Num 2026\<rparr>
   \<and> ''mars'' \<noteq> []
   \<and> readStoredPeriod
        (setItem ''analysisYear'' (String_num (Num 2024)) (setItem ''analysisMonth'' ''mars'' w0)) =
       \<lparr>p_mois = ''mars'', p_annee = Num 2024\<rparr>"
proof -
  have none: "getItem ''analysisMonth'' w0 = None" "getItem ''analysisYear'' w0 = None"
    by (simp_all add: getItem_def w0_def)
  have today: "MOIS ! getMonth w0 = ''novembre''" "now_year w0 = 2026"
    by (simp_all add: MOIS_def getMonth_def w0_def)
  from stored_period_or_today [of w0 "''mars''" "Num 2024", unfolded today] none
  show ?thesis
    by simp
qed

lemma received_dispatch:
  "received h (dispatchEvent kind e w) = received h w @ replicate (invocations kind h (listeners w)) e"
proof -
  have "map snd (filter (\<lambda>d. fst d = h) (map (\<lambda>l. (snd l, e)) (filter (\<lambda>l. fst l = kind) ls))) =
      replicate (count_list ls (kind, h)) e" for ls :: "(string \<times> nat) list"
    by (induction ls) auto
  then show ?thesis
    by (simp add: received_def dispatchEvent_def invocations_def)
qed

lemma count_list_distinct:
  "distinct ls \<Longrightarrow> x \<in> set ls \<Longrightarrow> count_list ls x = 1"
  by (induction ls) auto

lemma invocations_add:
  assumes "distinct ls"
  shows "invocations kind h (listeners (addEventListener kind h (w\<lparr>listeners := ls\<rparr>))) = 1"
proof (cases "(kind, h) \<in> set ls")
  case True
  with assms show ?thesis
    by (simp add: invocations_def addEventListener_def count_list_distinct)
next
  case False
  then have "count_list ls (kind, h) = 0"
    by (simp add: count_list_0_iff)
  with False show ?thesis
    by (simp add: invocations_def addEventListener_def)
qed

lemma invocations_remove:
  "invocations kind h (listeners (removeEventListener kind h w)) = 0"
  by (simp add: invocations_def removeEventListener_def count_list_0_iff)

lemma listeners_stay_distinct:
  assumes "distinct (listeners w)"
  shows "distinct (listeners (addEventListener kind h w))"
    and "distinct (listeners (removeEventListener kind h w))"
    and "distinct (listeners (dispatchEvent kind e w))"
  using assms
  by (simp_all add: addEventListener_def removeEventListener_def dispatchEvent_def distinct_removeAll)

lemma received_listeners: "received h (w\<lparr>listeners := ls\<rparr>) = received h w"
  by (simp add: received_def)

lemma received_add: "received h (addEventListener kind k w) = received h w"
  by (simp add: received_def addEventListener_def)

lemma received_remove: "received h (removeEventListener kind k w) = received h w"
  by (simp add: received_def removeEventListener_def)

lemma subscribed_once:
  assumes "distinct (listeners w)"
  shows "received h (dispatchEvent kind e (addEventListener kind h w)) = received h w @ [e]"
proof -
  have "w = w\<lparr>listeners := listeners w\<rparr>" by simp
  with invocations_add [OF assms, of kind h w]
  have "invocations kind h (listeners (addEventListener kind h w)) = 1"
    by simp
  then show ?thesis
    by (simp add: received_dispatch received_add)
qed

lemma unsubscribed_nothing:
  "received h (dispatchEvent kind e (removeEventListener kind h w)) = received h w"
  by (simp add: received_dispatch invocations_remove received_remove)

lemma requests_ignore_listeners:
  "upload_request s (addEventListener kind h w) = upload_request s w"
  "etl_request s (addEventListener kind h w) = etl_request s w"
  "upload_request s (removeEventListener kind h w) = upload_request s w"
  "etl_request s (removeEventListener kind h w) = etl_request s w"
  by (simp_all add: upload_request_def etl_request_def addEventListener_def
      removeEventListener_def API_BASE_def getItem_def)

lemma perform_dispatches:
  assumes "bk (upload_request s w) = Resolved u" and "bk (etl_request s w) = Resolved d"
  shows "received h (snd (performUploadAndAnalyze bk (s, w))) =
           received h (dispatchEvent ''analysis-period-changed'' (period_detail s) w)"
  using assms by (simp add: perform_resolved received_def dispatchEvent_def)

text \<open>
  C9: with no handler registered twice on \<open>window\<close>, which registering, removing and
  dispatching preserve, a handler registered by a panel's mount (of \<open>AlertsPanel\<close>, \<open>Dashboard\<close> or
  \<open>AnalyticsSummary\<close>) is invoked exactly once, with the dispatched payload, by a dispatch
  on the channel, and a handler removed by the panel's unmount is not invoked; in particular
  the publish of a successful upload cycle reaches a mounted panel once, with the submitted
  period, and does not reach an unmounted one.
\<close>

theorem subscribed_panel_receives_once:
  assumes listeners: "distinct (listeners w)"
  shows "received h (dispatchEvent ''analysis-period-changed'' e (AlertsPanel_mount h w)) =
           received h w @ [e]
       \<and> received h (dispatchEvent ''analysis-period-changed'' e (Dashboard_mount h w)) =
           received h w @ [e]
       \<and> received h (dispatchEvent ''analysis-period-changed'' e (AnalyticsSummary_mount h w)) =
           received h w @ [e]
       \<and> received h (dispatchEvent ''analysis-period-changed'' e (AlertsPanel_unmount h w)) =
           received h w
       \<and> received h (dispatchEvent ''analysis-period-changed'' e (Dashboard_unmount h w)) =
           received h w
       \<and> received h (dispatchEvent ''analysis-period-changed'' e (AnalyticsSummary_unmount h w)) =
           received h w
       \<and> (bk (upload_request s w) = Resolved u \<and> bk (etl_request s w) = Resolved d \<longrightarrow>
            received h (snd (performUploadAndAnalyze bk (s, AlertsPanel_mount h w))) =
              received h w @ [period_detail s]
            \<and> received h (snd (performUploadAndAnalyze bk (s, AlertsPanel_unmount h w))) =
              received h w)"
proof -
  note mounts = AlertsPanel_mount_def Dashboard_mount_def AnalyticsSummary_mount_def
    AlertsPanel_unmount_def Dashboard_unmount_def AnalyticsSummary_unmount_def
  have cycle: "received h (snd (performUploadAndAnalyze bk (s, AlertsPanel_mount h w))) =
              received h w @ [period_detail s]
            \<and> received h (snd (performUploadAndAnalyze bk (s, AlertsPanel_unmount h w))) =
              received h w"
    if up: "bk (upload_request s w) = Resolved u" and an: "bk (etl_request s w) = Resolved d"
  proof -
    let ?m = "addEventListener ''analysis-period-changed'' h w"
    let ?u = "removeEventListener ''analysis-period-changed'' h w"
    from up an have "bk (upload_request s ?m) = Resolved u" "bk (etl_request s ?m) = Resolved d"
      by (simp_all add: requests_ignore_listeners)
    then have m: "received h (snd (performUploadAndAnalyze bk (s, ?m))) =
        received h (dispatchEvent ''analysis-period-changed'' (period_detail s) ?m)"
      by (rule perform_dispatches)
    from up an have "bk (upload_request s ?u) = Resolved u" "bk (etl_request s ?u) = Resolved d"
      by (simp_all add: requests_ignore_listeners)
    then have u: "received h (snd (performUploadAndAnalyze bk (s, ?u))) =
        received h (dispatchEvent ''analysis-period-changed'' (period_detail s) ?u)"
      by (rule perform_dispatches)
    from m u show ?thesis
      by (simp add: mounts subscribed_once [OF listeners] unsubscribed_nothing)
  qed
  from cycle show ?thesis
    by (simp add: mounts subscribed_once [OF listeners] unsubscribed_nothing)
qed

theorem subscribed_panel_receives_once_witness:
  "distinct (listeners w0)
   \<and> bk_ok (upload_request s_mars w0) = Resolved etl_ok
   \<and> bk_ok (etl_request s_mars w0) = Resolved etl_ok
   \<and> received 1 (snd (performUploadAndAnalyze bk_ok (s_mars, AlertsPanel_mount 1 w0))) = [ev_mars]
   \<and> received 1 (snd (performUploadAndAnalyze bk_ok (s_mars, AlertsPanel_unmount 1 w0))) = []"
proof -
  have listeners: "distinct (listeners w0)"
    by (simp add: w0_def)
  have up: "bk_ok (upload_request s_mars w0) = Resolved etl_ok"
    and an: "bk_ok (etl_request s_mars w0) = Resolved etl_ok"
    by (simp_all add: bk_ok_def)
  have vals: "received 1 w0 = []" "period_detail s_mars = ev_mars"
    by (simp_all add: received_def w0_def period_detail_def s_mars_def ev_mars_def)
  from subscribed_panel_receives_once [OF listeners, of 1 ev_mars bk_ok s_mars etl_ok etl_ok,
      unfolded vals] listeners up an
  show ?thesis
    by simp
qed

lemma AlertsPanel_handler_step:
  "\<not> payload_complete e \<Longrightarrow> AlertsPanel_handler e p = p"
  "period_set (al_periode p) \<Longrightarrow> period_set (al_periode (AlertsPanel_handler e p))"
  by (auto simp add: AlertsPanel_handler_def payload_complete_def period_set_def Number_num_def
      split: option.splits)

lemma onPeriod_step:
  "\<not> payload_complete e \<Longrightarrow> onPeriod e q = q"
  "period_set (da_period q) \<Longrightarrow> period_set (da_period (onPeriod e q))"
  by (auto simp add: onPeriod_def payload_complete_def period_set_def Number_num_def
      split: option.splits)

lemma fetchSummary_period: "as_period (fst (fetchSummary bk m y (a, w))) = as_period a"
  by (simp add: fetchSummary_def getMonthSummary_def send_def as_period_def Let_def
      split: reply.splits)

lemma onChange_step:
  "\<not> payload_complete e \<Longrightarrow> onChange bk e aw = aw"
  "period_set (as_period (fst aw)) \<Longrightarrow> period_set (as_period (fst (onChange bk e aw)))"
proof -
  show "onChange bk e aw = aw" if "\<not> payload_complete e"
    using that by (auto simp add: onChange_def payload_complete_def split: option.splits)
  show "period_set (as_period (fst (onChange bk e aw)))" if "period_set (as_period (fst aw))"
  proof (cases "payload_complete e")
    case False
    with that show ?thesis
      by (auto simp add: onChange_def payload_complete_def split: option.splits)
  next
    case True
    then obtain d m y where e: "e = Some d" and m: "d_mois d = Some m" and y: "d_annee d = Some y"
      and tm: "truthy_str m" and ty: "truthy_num y"
      by (cases e; cases "d_mois (the e)"; cases "d_annee (the e)")
        (auto simp add: payload_complete_def)
    have "as_period (fst (onChange bk e aw)) = \<lparr>p_mois = m, p_annee = y\<rparr>"
      using fetchSummary_period [of bk m y "(fst aw)\<lparr>as_mois := m, as_annee := y\<rparr>" "snd aw"]
      by (simp add: onChange_def e m y tm ty Number_num_def as_period_def)
    with tm ty show ?thesis
      by (simp add: period_set_def)
  qed
qed

lemma AlertsPanel_fold:
  "period_set (al_periode p) \<Longrightarrow> period_set (al_periode (fold AlertsPanel_handler es p))"
  by (induction es arbitrary: p) (simp_all add: AlertsPanel_handler_step)

lemma onPeriod_fold:
  "period_set (da_period q) \<Longrightarrow> period_set (da_period (fold onPeriod es q))"
  by (induction es arbitrary: q) (simp_all add: onPeriod_step)

lemma onChange_fold:
  "period_set (as_period (fst aw)) \<Longrightarrow> period_set (as_period (fst (fold (onChange bk) es aw)))"
  by (induction es arbitrary: aw) (simp_all add: onChange_step)

text \<open>
  C10: each of the three handlers leaves its panel unchanged on a payload that lacks a truthy
  month or a truthy year (the payload being what \<open>UploadSection\<close> dispatches: a month
  that is a string and a year that is a number, either of which may be absent); so a panel
  whose period has both fields set still has both fields set after any sequence of events.
\<close>

theorem handlers_ignore_partial_payloads:
  "(\<not> payload_complete e \<longrightarrow>
      AlertsPanel_handler e p = p \<and> onPeriod e q = q \<and> onChange bk e (a, w) = (a, w))
   \<and> (period_set (al_periode p) \<longrightarrow> period_set (al_periode (fold AlertsPanel_handler es p)))
   \<and> (period_set (da_period q) \<longrightarrow> period_set (da_period (fold onPeriod es q)))
   \<and> (period_set (as_period a) \<longrightarrow>
        period_set (as_period (fst (fold (onChange bk) es (a, w)))))"
  using AlertsPanel_handler_step(1) [of e p] onPeriod_step(1) [of e q]
    onChange_step(1) [of e bk "(a, w)"] AlertsPanel_fold [of p es] onPeriod_fold [of q es]
    onChange_fold [of "(a, w)" bk es]
  by simp

theorem handlers_ignore_partial_payloads_witness:
  "\<not> payload_complete ev_no_year
   \<and> AlertsPanel_handler ev_no_year (AlertsPanel_init w0) = AlertsPanel_init w0
   \<and> period_set (al_periode (AlertsPanel_init w0))
   \<and> period_set (al_periode (fold AlertsPanel_handler [ev_no_year, ev_mars, None]
        (AlertsPanel_init w0)))
   \<and> al_periode (fold AlertsPanel_handler [ev_no_year, ev_mars, None] (AlertsPanel_init w0)) =
       \<lparr>p_mois = ''mars'', p_annee = Num 2024\<rparr>"
proof -
  have partial: "\<not> payload_complete ev_no_year"
    by (simp add: payload_complete_def ev_no_year_def)
  have init: "al_periode (AlertsPanel_init w0) = \<lparr>p_mois = ''novembre'', p_annee = Num 2026\<rparr>"
    by (simp add: AlertsPanel_init_def readStoredPeriod_def getItem_def w0_def monthNameFR_def
        getMonth_def MOIS_def getFullYear_def)
  then have set0: "period_set (al_periode (AlertsPanel_init w0))"
    by (simp add: period_set_def truthy_str_def)
  have run: "al_periode (fold AlertsPanel_handler [ev_no_year, ev_mars, None] (AlertsPanel_init w0)) =
      \<lparr>p_mois = ''mars'', p_annee = Num 2024\<rparr>"
    by (simp add: AlertsPanel_handler_def ev_no_year_def ev_mars_def truthy_str_def Number_num_def)
  from handlers_ignore_partial_payloads [of ev_no_year "AlertsPanel_init w0" _ _ _ _
      "[ev_no_year, ev_mars, None]"] partial set0 run
  show ?thesis
    by blast
qed

section \<open>The claim about the bearer credential\<close>

lemma authorization_cases:
  "t \<noteq> [] \<Longrightarrow> authorization (Some t) = ''Bearer '' @ t"
  "authorization None = []"
  "authorization (Some []) = []"
  by (simp_all add: authorization_def truthy_str_def)

lemma authorization_headers:
  "header ''Authorization'' (upload_request s w) = Some (authorization (getItem ''token'' w))"
  "header ''Authorization'' (etl_request s w) = Some (authorization (getItem ''token'' w))"
  "header ''Authorization'' (summary_request m y w) = Some (authorization (getItem ''token'' w))"
  "header ''Authorization'' (anomalies_request props w) =
     Some (authorization (getItem ''token'' w))"
  by (simp_all add: header_def upload_request_def etl_request_def summary_request_def
      anomalies_request_def)

lemma alerts_header:
  "header ''Authorization'' (alerts_request p w) =
     (if truthy_opt_str (getItem ''token'' w) then Some (authorization (getItem ''token'' w))
      else None)"
  by (cases "getItem ''token'' w")
    (simp_all add: header_def alerts_request_def AlertsPanel_headers_def authorization_def
      truthy_str_def)

lemma alerts_request_flags:
  "alerts_request (p\<lparr>al_loading := b, al_error := e\<rparr>) w = alerts_request p w"
  by (simp add: alerts_request_def)

lemma panel_requests_sent:
  "since w (snd (fetchSummary bk m y (a, w))) = [Request (summary_request m y w)]"
  "since w (snd (refresh bk (p, w))) = [Request (alerts_request p w)]"
  "since w (snd (AnomaliesPanel_effect bk props (q, w))) = [Request (anomalies_request props w)]"
  by (simp_all add: fetchSummary_def getMonthSummary_def refresh_def AnomaliesPanel_effect_def
      send_def since_def Let_def alerts_request_flags split: reply.splits)

lemma panel_rejections_shown:
  "bk (summary_request m y w) = Rejected e \<Longrightarrow>
     as_error (fst (fetchSummary bk m y (a, w))) =
       error_text e ''Erreur lors du chargement du resume.''"
  "bk (alerts_request p w) = Rejected e \<Longrightarrow>
     al_error (fst (refresh bk (p, w))) = error_value e ''Erreur chargement alertes.''"
  "bk (anomalies_request props w) = Rejected e \<Longrightarrow>
     an_error (fst (AnomaliesPanel_effect bk props (q, w))) =
       error_value e ''Erreur chargement anomalies.''"
  by (simp_all add: fetchSummary_def getMonthSummary_def refresh_def AnomaliesPanel_effect_def
      send_def Let_def alerts_request_flags)

lemma perform_first_request:
  "take 1 (since w (snd (performUploadAndAnalyze bk (s, w)))) = [Request (upload_request s w)]"
proof (cases "bk (upload_request s w)")
  case (Rejected e)
  then show ?thesis
    by (simp add: perform_upload_rejected since_append)
next
  case (Resolved u)
  note up = Resolved
  show ?thesis
  proof (cases "bk (etl_request s w)")
    case (Rejected e)
    with up show ?thesis
      by (simp add: perform_etl_rejected since_append)
  next
    case (Resolved d)
    with up show ?thesis
      by (simp add: perform_resolved since_def)
  qed
qed

lemma perform_rejection_shown:
  assumes "bk (upload_request s w) = Rejected e"
  shows "error (fst (performUploadAndAnalyze bk (s, w))) =
           error_text e ''Erreur durant l'operation (upload/ETL/IA).''"
  using assms by (simp add: perform_upload_rejected upload_failed_def)

lemma uploadExcels_without_token:
  assumes "\<not> truthy_opt_str (getItem ''token'' w)"
    and "truthy_str (a_type_fichier a)" and "truthy_str (a_mois a)" and "truthy_num (a_annee a)"
    and "a_files a = Some fs" and "fs \<noteq> []"
  shows "uploadExcels bk a w = (Inl (Thrown ''Token invalide ou expire''), w)"
  using assms by (simp add: uploadExcels_def)

lemma uploadExcels_with_token:
  assumes "getItem ''token'' w = Some t" and "t \<noteq> []"
    and "truthy_str (a_type_fichier a)" and "truthy_str (a_mois a)" and "truthy_num (a_annee a)"
    and "a_files a = Some fs" and "fs \<noteq> []"
  shows "since w (snd (uploadExcels bk a w)) = [Request (service_request a fs t w)]"
    and "header ''Authorization'' (service_request a fs t w) = Some (''Bearer '' @ t)"
  using assms
  by (simp_all add: uploadExcels_def truthy_str_def send_def since_def header_def
      service_request_def split: reply.splits)

text \<open>
  C4, as the code has it. The requests of \<open>performUploadAndAnalyze\<close>, \<open>getMonthSummary\<close> and
  \<open>AnomaliesPanel\<close> carry the header \<open>Authorization\<close> with the value \<open>Bearer\<close> and the
  token when a non-empty token is stored and with the empty value otherwise; the request of
  \<open>AlertsPanel\<close> carries \<open>Bearer\<close> and the token or no such header. None of them fails
  before sending: the request is sent whatever is stored, and a rejection by the backend
  becomes the component's error. The service \<open>uploadExcels\<close> sends \<open>Bearer\<close> and the token
  when a token is stored, and without one it throws before any request is sent.
\<close>

theorem bearer_credential_attached:
  "header ''Authorization'' (upload_request s w) = Some (authorization (getItem ''token'' w))
   \<and> header ''Authorization'' (etl_request s w) = Some (authorization (getItem ''token'' w))
   \<and> header ''Authorization'' (summary_request m y w) = Some (authorization (getItem ''token'' w))
   \<and> header ''Authorization'' (anomalies_request props w) =
       Some (authorization (getItem ''token'' w))
   \<and> header ''Authorization'' (alerts_request p w) =
       (if truthy_opt_str (getItem ''token'' w) then Some (authorization (getItem ''token'' w))
        else None)
   \<and> (t \<noteq> [] \<longrightarrow> authorization (Some t) = ''Bearer '' @ t)
   \<and> authorization None = [] \<and> authorization (Some []) = []
   \<and> take 1 (since w (snd (performUploadAndAnalyze bk (s, w)))) = [Request (upload_request s w)]
   \<and> since w (snd (fetchSummary bk m y (a, w))) = [Request (summary_request m y w)]
   \<and> since w (snd (refresh bk (p, w))) = [Request (alerts_request p w)]
   \<and> since w (snd (AnomaliesPanel_effect bk props (q, w))) = [Request (anomalies_request props w)]
   \<and> (bk (upload_request s w) = Rejected e \<longrightarrow>
        error (fst (performUploadAndAnalyze bk (s, w))) =
          error_text e ''Erreur durant l'operation (upload/ETL/IA).'')
   \<and> (bk (summary_request m y w) = Rejected e \<longrightarrow>
        as_error (fst (fetchSummary bk m y (a, w))) =
          error_text e ''Erreur lors du chargement du resume.'')
   \<and> (bk (alerts_request p w) = Rejected e \<longrightarrow>
        al_error (fst (refresh bk (p, w))) = error_value e ''Erreur chargement alertes.'')
   \<and> (bk (anomalies_request props w) = Rejected e \<longrightarrow>
        an_error (fst (AnomaliesPanel_effect bk props (q, w))) =
          error_value e ''Erreur chargement anomalies.'')
   \<and> (truthy_str (a_type_fichier args) \<and> truthy_str (a_mois args) \<and> truthy_num (a_annee args)
      \<and> a_files args = Some fs \<and> fs \<noteq> [] \<longrightarrow>
        (\<not> truthy_opt_str (getItem ''token'' w) \<longrightarrow>
           uploadExcels bk args w = (Inl (Thrown ''Token invalide ou expire''), w))
        \<and> (getItem ''token'' w = Some t \<and> t \<noteq> [] \<longrightarrow>
           since w (snd (uploadExcels bk args w)) = [Request (service_request args fs t w)]
           \<and> header ''Authorization'' (service_request args fs t w) = Some (''Bearer '' @ t)))"
  using perform_first_request [of w bk s]
  by (simp add: authorization_headers alerts_header authorization_cases
      panel_requests_sent perform_rejection_shown panel_rejections_shown
      uploadExcels_without_token uploadExcels_with_token)

theorem bearer_credential_attached_witness:
  "getItem ''token'' w0 = None
   \<and> header ''Authorization'' (upload_request s_mars w0) = Some []
   \<and> bk_auth (upload_request s_mars w0) = Rejected err401
   \<and> take 1 (since w0 (snd (performUploadAndAnalyze bk_auth (s_mars, w0)))) =
       [Request (upload_request s_mars w0)]
   \<and> error (fst (performUploadAndAnalyze bk_auth (s_mars, w0))) = ''Not authenticated''
   \<and> getItem ''token'' w_token = Some ''abc''
   \<and> header ''Authorization'' (upload_request s_mars w_token) = Some ''Bearer abc''
   \<and> header ''Authorization'' (alerts_request (AlertsPanel_init w_token) w_token) =
       Some ''Bearer abc''
   \<and> header ''Authorization'' (alerts_request (AlertsPanel_init w0) w0) = None"
proof -
  have none: "getItem ''token'' w0 = None" and some: "getItem ''token'' w_token = Some ''abc''"
    by (simp_all add: getItem_def w0_def w_token_def)
  have rejected: "bk_auth (upload_request s_mars w0) = Rejected err401"
    by (simp add: bk_auth_def header_def upload_request_def authorization_def none)
  have shown: "error_text err401 ''Erreur durant l'operation (upload/ETL/IA).'' = ''Not authenticated''"
    by (simp add: error_text_def error_value_def err401_def truthy_str_def)
  have bearer: "authorization (Some ''abc'') = ''Bearer abc''"
    by (simp add: authorization_def truthy_str_def)
  from bearer_credential_attached [of s_mars w0 _ _ _ "AlertsPanel_init w0" _ bk_auth _ _ err401,
      unfolded none shown]
    bearer_credential_attached [of s_mars w_token _ _ _ "AlertsPanel_init w_token", unfolded some bearer]
    none some rejected
  show ?thesis
    by (simp add: authorization_def truthy_str_def)
qed

text \<open>
  C4 as it is stated fails for the service \<open>uploadExcels\<close>: with no token stored it throws
  and sends nothing, whatever the backend would have answered.
\<close>

theorem uploadExcels_throws_without_token:
  "getItem ''token'' w0 = None
   \<and> uploadExcels bk_ok args_mars w0 = (Inl (Thrown ''Token invalide ou expire''), w0)
   \<and> since w0 (snd (uploadExcels bk_ok args_mars w0)) = []"
proof -
  have none: "getItem ''token'' w0 = None"
    by (simp add: getItem_def w0_def)
  then have run: "uploadExcels bk_ok args_mars w0 = (Inl (Thrown ''Token invalide ou expire''), w0)"
    by (simp add: uploadExcels_def args_mars_def truthy_str_def)
  with none show ?thesis
    by (simp add: since_def)
qed

end
